theory Spec2Isabelle
  imports Main "HOL-Library.Sublist"
begin

section \<open>Resume improvement generator: values, strings and the oracle\<close>

text \<open>
  The generator (\<^verbatim>\<open>old_generator.py\<close>) reads two JSON-like mappings, the parsed resume and
  the analysis, and returns a list of suggestions. Python values are dynamically typed, so
  the model has one datatype of values; every \<^verbatim>\<open>isinstance\<close> test of the source is a case
  distinction on its constructors. A dict is an association list in insertion order (its
  keys are strings, and distinct in a Python dict); a number is an integer, since the
  source only ever reads the truth value of a number.

  A Python \<^verbatim>\<open>str\<close> is modelled as its UTF-8 bytes: the source tests strings for
  emptiness and equality, joins them, and calls \<^verbatim>\<open>strip\<close> and \<^verbatim>\<open>lower\<close> on them, none of
  which counts characters. The leading underscore of the source's private names is
  dropped, Isabelle names start with a letter.
\<close>

datatype pyval =
    PNone
  | PBool bool
  | PInt int
  | PStr string
  | PList "pyval list"
  | PTuple "pyval list"
  | PDict "(string \<times> pyval) list"

type_synonym pydict = "(string \<times> pyval) list"

text \<open>Python truth value of an object, as \<^verbatim>\<open>if x\<close>, \<^verbatim>\<open>not x\<close> and \<^verbatim>\<open>x or y\<close> read it.\<close>

fun truthy :: "pyval \<Rightarrow> bool" where
  "truthy PNone = False"
| "truthy (PBool b) = b"
| "truthy (PInt n) = (n \<noteq> 0)"
| "truthy (PStr s) = (s \<noteq> [])"
| "truthy (PList xs) = (xs \<noteq> [])"
| "truthy (PTuple xs) = (xs \<noteq> [])"
| "truthy (PDict d) = (d \<noteq> [])"

text \<open>\<^verbatim>\<open>d.get(k)\<close>: the value under the key, \<^verbatim>\<open>None\<close> when the key is missing.\<close>

definition dict_get :: "pydict \<Rightarrow> string \<Rightarrow> pyval" where
  "dict_get d k = (case map_of d k of None \<Rightarrow> PNone | Some v \<Rightarrow> v)"

text \<open>\<^verbatim>\<open>issue_dict.get(k)\<close> read as a condition.\<close>

definition flag :: "pydict \<Rightarrow> string \<Rightarrow> bool" where
  "flag d k = truthy (dict_get d k)"

text \<open>The comprehension \<^verbatim>\<open>[x for x in xs if isinstance(x, str)]\<close>.\<close>

fun str_items :: "pyval list \<Rightarrow> string list" where
  "str_items [] = []"
| "str_items (PStr s # xs) = s # str_items xs"
| "str_items (_ # xs) = str_items xs"

text \<open>\<^verbatim>\<open>sep.join(xs)\<close>.\<close>

fun py_join :: "string \<Rightarrow> string list \<Rightarrow> string" where
  "py_join sep [] = []"
| "py_join sep [x] = x"
| "py_join sep (x # y # ys) = x @ sep @ py_join sep (y # ys)"

text \<open>
  \<^verbatim>\<open>str.strip()\<close> removes from both ends of a string the characters for which
  \<^verbatim>\<open>str.isspace()\<close> holds. These are the code points 9 to 13 and 28 to 32 of ASCII, and
  U+0085, U+00A0, U+1680, U+2000 to U+200A, U+2028, U+2029, U+202F, U+205F and U+3000.
  On the UTF-8 bytes of a string a character is removed as its whole encoding.
\<close>

definition whitespace_points :: "nat list" where
  "whitespace_points =
     [9, 10, 11, 12, 13, 28, 29, 30, 31, 32, 133, 160, 5760,
      8192, 8193, 8194, 8195, 8196, 8197, 8198, 8199, 8200, 8201, 8202,
      8232, 8233, 8239, 8287, 12288]"

text \<open>The UTF-8 encoding of a code point.\<close>

definition utf8 :: "nat \<Rightarrow> string" where
  "utf8 n =
     (if n < 128 then [char_of n]
      else if n < 2048 then [char_of (192 + n div 64), char_of (128 + n mod 64)]
      else if n < 65536
      then [char_of (224 + n div 4096), char_of (128 + n div 64 mod 64), char_of (128 + n mod 64)]
      else [char_of (240 + n div 262144), char_of (128 + n div 4096 mod 64),
            char_of (128 + n div 64 mod 64), char_of (128 + n mod 64)])"

definition whitespace_codes :: "string list" where
  "whitespace_codes = map utf8 whitespace_points"

text \<open>
  Removing leading characters: as long as the string starts with one of the codes, that
  code is dropped (the code \<open>w\<close> found starts with the byte \<open>c\<close>, so what is left of it is
  the first \<open>length w - 1\<close> bytes of the rest).
\<close>

fun strip_leading :: "string list \<Rightarrow> string \<Rightarrow> string" where
  "strip_leading codes [] = []"
| "strip_leading codes (c # cs) =
     (case find (\<lambda>w. prefix w (c # cs)) codes of
        None \<Rightarrow> c # cs
      | Some w \<Rightarrow> strip_leading codes (drop (length w - 1) cs))"

text \<open>Trailing characters are the leading ones of the reversed string, with reversed codes.\<close>

definition py_strip :: "string \<Rightarrow> string" where
  "py_strip s =
     rev (strip_leading (map rev whitespace_codes) (rev (strip_leading whitespace_codes s)))"

text \<open>
  Two properties of a list of codes: no code is empty or starts another one; and no byte
  after the first byte of a code is the first byte of a code.
\<close>

definition prefix_free :: "string list \<Rightarrow> bool" where
  "prefix_free codes =
     ([] \<notin> set codes \<and> (\<forall>a\<in>set codes. \<forall>b\<in>set codes. prefix a b \<longrightarrow> a = b))"

definition self_synchronizing :: "string list \<Rightarrow> bool" where
  "self_synchronizing codes =
     (\<forall>w\<in>set codes. \<forall>v\<in>set codes. v \<noteq> [] \<longrightarrow> hd v \<notin> set (tl w))"

text \<open>The separator \<^verbatim>\<open>" \<bullet> "\<close> of the source: a space, U+2022 in UTF-8, a space.\<close>

definition bullet_sep :: string where
  "bullet_sep = [CHR 0x20, CHR 0xE2, CHR 0x80, CHR 0xA2, CHR 0x20]"

definition em_dash :: string where
  "em_dash = [CHR 0xE2, CHR 0x80, CHR 0x94]"

definition en_dash :: string where
  "en_dash = [CHR 0xE2, CHR 0x80, CHR 0x93]"

subsection \<open>Suggestions and the oracle\<close>

text \<open>
  \<^verbatim>\<open>ResumeSuggestion\<close> (from \<^verbatim>\<open>schemas\<close>, not in the sources) is built with four keyword
  arguments, stored as given (the field \<^verbatim>\<open>section\<close> is \<open>section_label\<close> here, \<open>section\<close> being a
  command of Isabelle). \<^verbatim>\<open>original\<close> may be \<^verbatim>\<open>None\<close> in \<^verbatim>\<open>_append_if_changed\<close>, so
  the field is an option.
\<close>

record suggestion =
  section_label :: string
  issue :: string
  original_text :: "string option"
  improved_text :: string

text \<open>
  The state of one run: the suggestions collected so far, and the oracle calls made so far
  as pairs of text and instruction.
\<close>

record gen_state =
  calls :: "(string \<times> string) list"
  suggestions :: "suggestion list"

text \<open>
  The oracle behind \<^verbatim>\<open>llm_call\<close> is a parameter of the model. Its answer may depend on every
  call made before, so an oracle is any function of the call history, the text and the
  instruction; its answer is a string, or \<^verbatim>\<open>None\<close> for a failure.
\<close>

type_synonym rewrite_oracle = "(string \<times> string) list \<Rightarrow> string \<Rightarrow> string \<Rightarrow> string option"

text \<open>
  Modelled from the spec: \<^verbatim>\<open>llm_call\<close> lives in \<^verbatim>\<open>llm_handler\<close>, which is not in the
  sources. By the specification it is one blocking request to the oracle with the text and
  the instruction, returning the rewritten text or an empty or falsy value. The model asks
  the oracle and records the call.
\<close>

definition llm_call :: "rewrite_oracle \<Rightarrow> gen_state \<Rightarrow> string \<Rightarrow> string \<Rightarrow> string option \<times> gen_state" where
  "llm_call orc st txt instruction =
     (orc (calls st) txt instruction, st\<lparr>calls := calls st @ [(txt, instruction)]\<rparr>)"

section \<open>Small utilities\<close>

text \<open>
  \<^verbatim>\<open>str.lower()\<close> follows the case tables of Unicode, which are no part of the sources.
  It is a parameter of the model: every function below that lowercases, directly or
  through a function it calls, takes the lowercasing function \<open>lower\<close> as its first
  argument, and every theorem holds for every such function, so for \<^verbatim>\<open>str.lower()\<close> too.
  The expression \<^verbatim>\<open>s.strip().lower()\<close> of \<^verbatim>\<open>_append_if_changed\<close> is \<open>normalize lower s\<close>.
\<close>

definition normalize :: "(string \<Rightarrow> string) \<Rightarrow> string \<Rightarrow> string" where
  "normalize lower s = lower (py_strip s)"

text \<open>\<^verbatim>\<open>_append_if_changed\<close>; \<^verbatim>\<open>out\<close> is returned extended instead of mutated.\<close>

definition append_if_changed ::
  "(string \<Rightarrow> string) \<Rightarrow> suggestion list \<Rightarrow> string \<Rightarrow> string \<Rightarrow> string option \<Rightarrow> string option \<Rightarrow> suggestion list" where
  "append_if_changed lower out sec iss original improved =
     (case improved of
        None \<Rightarrow> out
      | Some imp \<Rightarrow>
          if imp = [] then out
          else
            (let orig_norm = normalize lower (case original of None \<Rightarrow> [] | Some s \<Rightarrow> s);
                 imp_norm = normalize lower imp
             in if imp_norm \<noteq> [] \<and> imp_norm \<noteq> orig_norm
                then out @ [\<lparr>section_label = sec, issue = iss,
                             original_text = original, improved_text = imp\<rparr>]
                else out))"

text \<open>The loop over the preferred fields of \<^verbatim>\<open>_combine_entry_text\<close>.\<close>

fun first_text_field :: "pydict \<Rightarrow> string list \<Rightarrow> string option" where
  "first_text_field d [] = None"
| "first_text_field d (k # ks) =
     (case dict_get d k of
        PStr val \<Rightarrow> if py_strip val \<noteq> [] then Some (py_strip val) else first_text_field d ks
      | _ \<Rightarrow> first_text_field d ks)"

text \<open>The last resort of \<^verbatim>\<open>_combine_entry_text\<close>: the loop over \<^verbatim>\<open>entry.items()\<close>.\<close>

fun entry_parts :: "pydict \<Rightarrow> string list" where
  "entry_parts [] = []"
| "entry_parts ((k, v) # kvs) =
     (case v of
        PStr s \<Rightarrow> [s]
      | PList xs \<Rightarrow> str_items xs
      | PTuple xs \<Rightarrow> str_items xs
      | _ \<Rightarrow> []) @ entry_parts kvs"

fun combine_entry_text :: "pyval \<Rightarrow> string" where
  "combine_entry_text PNone = []"
| "combine_entry_text (PStr s) = s"
| "combine_entry_text (PDict entry) =
     (case first_text_field entry [''description'', ''details'', ''summary'', ''line'', ''text''] of
        Some val \<Rightarrow> val
      | None \<Rightarrow>
          (case dict_get entry ''bullets'' of
             PList bullets \<Rightarrow>
               if bullets \<noteq> [] then py_join bullet_sep (str_items bullets)
               else py_join bullet_sep (filter (\<lambda>p. py_strip p \<noteq> []) (entry_parts entry))
           | _ \<Rightarrow> py_join bullet_sep (filter (\<lambda>p. py_strip p \<noteq> []) (entry_parts entry))))"
| "combine_entry_text (PList xs) = py_join bullet_sep (str_items xs)"
| "combine_entry_text _ = []"

fun get_items :: "pydict \<Rightarrow> string list \<Rightarrow> pyval list" where
  "get_items resume [] = []"
| "get_items resume (k # ks) =
     (case dict_get resume k of PList items \<Rightarrow> items | _ \<Rightarrow> get_items resume ks)"

fun get_section_issues :: "pydict \<Rightarrow> string list \<Rightarrow> pyval" where
  "get_section_issues analysis [] = PNone"
| "get_section_issues analysis (k # ks) =
     (case map_of analysis k of Some v \<Rightarrow> v | None \<Rightarrow> get_section_issues analysis ks)"

section \<open>Handlers for the section types\<close>

definition EXPERIENCE_KEYS :: "string list" where
  "EXPERIENCE_KEYS = [''experience'', ''work_experience'', ''work'', ''professional_experience'']"

definition INTERNSHIP_KEYS :: "string list" where
  "INTERNSHIP_KEYS = [''internships'', ''internship'']"

definition EDUCATION_KEYS :: "string list" where
  "EDUCATION_KEYS = [''education'', ''educations'']"

definition AWARDS_KEYS :: "string list" where
  "AWARDS_KEYS = [''awards_achievements'', ''awards'', ''achievements'', ''honors'']"

definition POR_KEYS :: "string list" where
  "POR_KEYS = [''positions_of_responsibility'', ''leadership'', ''por'']"

definition CO_CURR_KEYS :: "string list" where
  "CO_CURR_KEYS = [''co_curricular'', ''co_curricular_activities'', ''cocurricular'']"

definition EXTRA_CURR_KEYS :: "string list" where
  "EXTRA_CURR_KEYS = [''extra_curricular'', ''extracurricular'', ''extracurricular_activities'']"

definition SKILLS_KEYS :: "string list" where
  "SKILLS_KEYS = [''skills'']"

definition SUMMARY_KEYS :: "string list" where
  "SUMMARY_KEYS = [''summary'', ''objective'', ''profile'']"

text \<open>The instruction strings of the handlers, as the source spells them.\<close>

definition instr_metrics :: string where
  "instr_metrics = ''Add measurable impact and metrics without inventing facts''"

definition instr_verbs :: string where
  "instr_verbs = ''Strengthen action verbs; start with a strong verb''"

definition instr_achievement :: string where
  "instr_achievement = ''Rewrite as an achievement with outcome and scale''"

definition instr_concise_role :: string where
  "instr_concise_role = ''Make this a concise one-line resume bullet''"

definition instr_keywords :: string where
  "instr_keywords = ''Include job-relevant keywords naturally if present in input''"

definition instr_concise_bullet :: string where
  "instr_concise_bullet = ''Make this concise, single resume bullet''"

definition instr_edu_generic :: string where
  "instr_edu_generic =
     ''Rewrite as a clean one-line education entry: Degree, Major '' @ em_dash @
     '' Institute, Location '' @ em_dash @ '' Dates. '' @
     ''Include GPA/CGPA and honors only if present in input. Do not invent.''"

definition instr_edu_dates :: string where
  "instr_edu_dates =
     ''Standardize dates to MMM YYYY or YYYY range if present; keep concise; do not fabricate.''"

definition instr_edu_gpa :: string where
  "instr_edu_gpa =
     ''If GPA/CGPA is present in the input, include it in a standard format; otherwise omit.''"

definition instr_edu_concise :: string where
  "instr_edu_concise =
     ''Make this a single concise line focusing on degree, institute, location, dates (and GPA if present).''"

definition instr_edu_section :: string where
  "instr_edu_section =
     ''Polish education entries to one-line standardized format: Degree, Major '' @ em_dash @
     '' Institute, Location '' @ em_dash @ '' Dates '' @ em_dash @
     '' GPA/CGPA (if present). Do not invent any data.''"

definition instr_skills :: string where
  "instr_skills =
     ''Cluster by category (e.g., Languages, Frameworks, Tools) and include proficiency levels '' @
     ''only if present in input. Keep it concise.''"

definition instr_summary_generic :: string where
  "instr_summary_generic = ''Make summary specific and tailored to the target role''"

definition instr_summary_long :: string where
  "instr_summary_long = ''Make summary concise (2'' @ en_dash @ ''3 lines)''"

definition instr_awards :: string where
  "instr_awards =
     ''Rewrite as crisp, impact-focused bullets; keep titles and recognition clear''"

definition instr_por :: string where
  "instr_por =
     ''Emphasize leadership, scope, and outcomes; keep bullets concise and achievement-focused''"

definition instr_co_curr :: string where
  "instr_co_curr = ''Refine to concise bullets showing relevance and impact; avoid fluff''"

definition instr_extra_curr :: string where
  "instr_extra_curr =
     ''Highlight leadership, scale, achievements; keep it to tight resume bullets''"

text \<open>
  The two statements every flag branch of the source consists of:
  \<^verbatim>\<open>improved = llm_call(llm_client, original, instruction)\<close> and then
  \<^verbatim>\<open>_append_if_changed(suggestions, section_label, issue, original, improved)\<close>.
\<close>

definition call_and_append ::
  "(string \<Rightarrow> string) \<Rightarrow> rewrite_oracle \<Rightarrow> string \<Rightarrow> string \<Rightarrow> string \<Rightarrow> string \<Rightarrow> gen_state \<Rightarrow> gen_state" where
  "call_and_append lower orc sec iss original instruction st =
     (let (improved, st') = llm_call orc st original instruction
      in st'\<lparr>suggestions := append_if_changed lower (suggestions st') sec iss (Some original) improved\<rparr>)"

text \<open>\<^verbatim>\<open>items[idx] if idx < len(items) else ""\<close>.\<close>

definition item_at :: "pyval list \<Rightarrow> nat \<Rightarrow> pyval" where
  "item_at items idx = (if idx < length items then items ! idx else PStr [])"

text \<open>The body of the loop of \<^verbatim>\<open>_process_experience_like\<close>, for one index.\<close>

definition experience_item ::
  "(string \<Rightarrow> string) \<Rightarrow> rewrite_oracle \<Rightarrow> string \<Rightarrow> pyval list \<Rightarrow> nat \<Rightarrow> pyval \<Rightarrow> gen_state \<Rightarrow> gen_state" where
  "experience_item lower orc sec items idx issue_dict st =
     (case issue_dict of
        PDict d \<Rightarrow>
          (let original = combine_entry_text (item_at items idx)
           in if original = [] then st
              else
                (let st1 = (if flag d ''no_metrics'' \<or> flag d ''missing_metrics''
                            then call_and_append lower orc sec ''No measurable impact'' original instr_metrics st
                            else st);
                     st2 = (if flag d ''weak_action_verbs''
                            then call_and_append lower orc sec ''Weak action verbs'' original instr_verbs st1
                            else st1);
                     st3 = (if flag d ''responsibility_over_achievement''
                            then call_and_append lower orc sec ''Not achievement-oriented'' original instr_achievement st2
                            else st2);
                     st4 = (if flag d ''too_wordy'' \<or> flag d ''too_long''
                            then call_and_append lower orc sec ''Too wordy'' original instr_concise_role st3
                            else st3)
                 in if flag d ''missing_keywords''
                    then call_and_append lower orc sec ''Missing keywords'' original instr_keywords st4
                    else st4))
      | _ \<Rightarrow> st)"

definition process_experience_like ::
  "(string \<Rightarrow> string) \<Rightarrow> rewrite_oracle \<Rightarrow> string \<Rightarrow> pyval list \<Rightarrow> pyval \<Rightarrow> gen_state \<Rightarrow> gen_state" where
  "process_experience_like lower orc sec items issues st =
     (case issues of
        PList iss \<Rightarrow>
          fold (\<lambda>(idx, issue_dict). experience_item lower orc sec items idx issue_dict) (enumerate 0 iss) st
      | _ \<Rightarrow> st)"

text \<open>The body of the per-item loop of \<^verbatim>\<open>_process_simple_list_section\<close>.\<close>

definition simple_list_item ::
  "(string \<Rightarrow> string) \<Rightarrow> rewrite_oracle \<Rightarrow> string \<Rightarrow> pyval list \<Rightarrow> string \<Rightarrow> nat \<Rightarrow> pyval \<Rightarrow> gen_state \<Rightarrow> gen_state" where
  "simple_list_item lower orc sec items generic_instruction idx issue_dict st =
     (case issue_dict of
        PDict d \<Rightarrow>
          (let original = combine_entry_text (item_at items idx)
           in if original = [] then st
              else
                (let applied0 = False;
                     (st1, applied1) =
                        (if flag d ''too_generic'' \<or> flag d ''missing_impact''
                         then (call_and_append lower orc sec ''Too generic'' original generic_instruction st, True)
                         else (st, applied0));
                     (st2, applied2) =
                        (if flag d ''too_wordy'' \<or> flag d ''too_long''
                         then (call_and_append lower orc sec ''Too wordy'' original instr_concise_bullet st1, True)
                         else (st1, applied1))
                 in if \<not> applied2 \<and> d \<noteq> []
                    then call_and_append lower orc sec ''Improve phrasing'' original generic_instruction st2
                    else st2))
      | _ \<Rightarrow> st)"

definition process_simple_list_section ::
  "(string \<Rightarrow> string) \<Rightarrow> rewrite_oracle \<Rightarrow> string \<Rightarrow> pyval list \<Rightarrow> pyval \<Rightarrow> string \<Rightarrow> gen_state \<Rightarrow> gen_state" where
  "process_simple_list_section lower orc sec items issues generic_instruction st =
     (case issues of
        PList iss \<Rightarrow>
          fold (\<lambda>(idx, issue_dict). simple_list_item lower orc sec items generic_instruction idx issue_dict)
               (enumerate 0 iss) st
      | PDict d \<Rightarrow>
          if flag d ''too_generic'' \<or> flag d ''too_long'' \<or> flag d ''missing_impact''
          then
            (let block = py_join bullet_sep (map combine_entry_text items)
             in if block \<noteq> []
                then call_and_append lower orc sec ''Section too generic'' block generic_instruction st
                else st)
          else st
      | _ \<Rightarrow> st)"

text \<open>The body of the per-item loop of \<^verbatim>\<open>_process_education\<close>.\<close>

definition education_item ::
  "(string \<Rightarrow> string) \<Rightarrow> rewrite_oracle \<Rightarrow> pyval list \<Rightarrow> nat \<Rightarrow> pyval \<Rightarrow> gen_state \<Rightarrow> gen_state" where
  "education_item lower orc items idx issue_dict st =
     (case issue_dict of
        PDict d \<Rightarrow>
          (let original = combine_entry_text (item_at items idx)
           in if original = [] then st
              else
                (let st1 = (if flag d ''too_generic''
                            then call_and_append lower orc ''education'' ''Too generic'' original instr_edu_generic st
                            else st);
                     st2 = (if flag d ''missing_dates''
                            then call_and_append lower orc ''education'' ''Missing dates'' original instr_edu_dates st1
                            else st1);
                     st3 = (if flag d ''missing_gpa''
                            then call_and_append lower orc ''education'' ''GPA/CGPA formatting'' original instr_edu_gpa st2
                            else st2)
                 in if flag d ''too_wordy'' \<or> flag d ''too_long''
                    then call_and_append lower orc ''education'' ''Too wordy'' original instr_edu_concise st3
                    else st3))
      | _ \<Rightarrow> st)"

definition process_education ::
  "(string \<Rightarrow> string) \<Rightarrow> rewrite_oracle \<Rightarrow> pyval list \<Rightarrow> pyval \<Rightarrow> gen_state \<Rightarrow> gen_state" where
  "process_education lower orc items issues st =
     (case issues of
        PList iss \<Rightarrow>
          fold (\<lambda>(idx, issue_dict). education_item lower orc items idx issue_dict) (enumerate 0 iss) st
      | PDict d \<Rightarrow>
          if flag d ''too_generic'' \<or> flag d ''too_long''
          then
            (let block = py_join bullet_sep (map combine_entry_text items)
             in if block \<noteq> []
                then call_and_append lower orc ''education'' ''Section needs standardization'' block
                       instr_edu_section st
                else st)
          else st
      | _ \<Rightarrow> st)"

text \<open>The loop of \<^verbatim>\<open>_get_skills_text\<close> over the five keys of a skills mapping.\<close>

fun skills_of_keys :: "pydict \<Rightarrow> string list \<Rightarrow> string list" where
  "skills_of_keys skills [] = []"
| "skills_of_keys skills (k # ks) =
     (case dict_get skills k of PList vals \<Rightarrow> str_items vals | _ \<Rightarrow> []) @ skills_of_keys skills ks"

definition get_skills_text :: "pydict \<Rightarrow> string" where
  "get_skills_text resume_text =
     (let flat = (case dict_get resume_text ''skills'' of
                    PList skills \<Rightarrow> str_items skills
                  | PDict skills \<Rightarrow>
                      skills_of_keys skills [''technical'', ''tools'', ''languages'', ''frameworks'', ''soft'']
                  | _ \<Rightarrow> [])
      in py_join '', '' flat)"

definition process_skills ::
  "(string \<Rightarrow> string) \<Rightarrow> rewrite_oracle \<Rightarrow> pydict \<Rightarrow> pyval \<Rightarrow> gen_state \<Rightarrow> gen_state" where
  "process_skills lower orc resume_text issues st =
     (let original = get_skills_text resume_text
      in if original = [] then st
         else
           (case issues of
              PDict d \<Rightarrow>
                if flag d ''too_generic'' \<or> flag d ''missing_proficiency''
                then
                  (let issue_text = (if flag d ''too_generic'' then ''Skills too generic''
                                     else ''Missing proficiency levels'')
                   in call_and_append lower orc ''skills'' issue_text original instr_skills st)
                else st
            | _ \<Rightarrow> st))"

definition process_summary ::
  "(string \<Rightarrow> string) \<Rightarrow> rewrite_oracle \<Rightarrow> pydict \<Rightarrow> pyval \<Rightarrow> gen_state \<Rightarrow> gen_state" where
  "process_summary lower orc resume_text issues st =
     (let original = (case dict_get resume_text ''summary'' of PStr s \<Rightarrow> s | _ \<Rightarrow> [])
      in if original = [] then st
         else
           (case issues of
              PDict d \<Rightarrow>
                (let st1 = (if flag d ''too_generic''
                            then call_and_append lower orc ''summary'' ''Summary too generic'' original
                                   instr_summary_generic st
                            else st);
                     st2 = (if flag d ''too_long''
                            then call_and_append lower orc ''summary'' ''Summary too long'' original
                                   instr_summary_long st1
                            else st1)
                 in if flag d ''missing_keywords''
                    then call_and_append lower orc ''summary'' ''Missing keywords'' original instr_keywords st2
                    else st2)
            | _ \<Rightarrow> st))"

section \<open>Public entry point\<close>

text \<open>
  \<^verbatim>\<open>generate_resume_improvements\<close>. Its two inputs are typed \<^verbatim>\<open>Dict[str, Any]\<close> and tested
  with \<^verbatim>\<open>not\<close>, which also admits \<^verbatim>\<open>None\<close>: each is an optional dict here. The result is
  the final state, whose \<open>suggestions\<close> are the returned list and whose \<open>calls\<close> are the
  oracle calls the run has made.
\<close>

definition init_state :: gen_state where
  "init_state = \<lparr>calls = [], suggestions = []\<rparr>"

text \<open>The part of \<^verbatim>\<open>generate_resume_improvements\<close> after its guard: the nine sections in turn.\<close>

definition process_sections :: "(string \<Rightarrow> string) \<Rightarrow> rewrite_oracle \<Rightarrow> pydict \<Rightarrow> pydict \<Rightarrow> gen_state" where
  "process_sections lower orc analysis resume_text =
     (let st0 = init_state;
          exp_items = get_items resume_text EXPERIENCE_KEYS;
          exp_issues = get_section_issues analysis EXPERIENCE_KEYS;
          st1 = (if exp_items \<noteq> [] \<and> exp_issues \<noteq> PNone
                 then process_experience_like lower orc ''experience'' exp_items exp_issues st0
                 else st0);
          intern_items = get_items resume_text INTERNSHIP_KEYS;
          intern_issues = get_section_issues analysis INTERNSHIP_KEYS;
          st2 = (if intern_items \<noteq> [] \<and> intern_issues \<noteq> PNone
                 then process_experience_like lower orc ''internships'' intern_items intern_issues st1
                 else st1);
          edu_items = get_items resume_text EDUCATION_KEYS;
          edu_issues = get_section_issues analysis EDUCATION_KEYS;
          st3 = (if edu_items \<noteq> [] \<and> edu_issues \<noteq> PNone
                 then process_education lower orc edu_items edu_issues st2
                 else st2);
          awards_items = get_items resume_text AWARDS_KEYS;
          awards_issues = get_section_issues analysis AWARDS_KEYS;
          st4 = (if awards_items \<noteq> [] \<and> awards_issues \<noteq> PNone
                 then process_simple_list_section lower orc ''awards_achievements'' awards_items
                        awards_issues instr_awards st3
                 else st3);
          por_items = get_items resume_text POR_KEYS;
          por_issues = get_section_issues analysis POR_KEYS;
          st5 = (if por_items \<noteq> [] \<and> por_issues \<noteq> PNone
                 then process_simple_list_section lower orc ''positions_of_responsibility'' por_items
                        por_issues instr_por st4
                 else st4);
          co_curr_items = get_items resume_text CO_CURR_KEYS;
          co_curr_issues = get_section_issues analysis CO_CURR_KEYS;
          st6 = (if co_curr_items \<noteq> [] \<and> co_curr_issues \<noteq> PNone
                 then process_simple_list_section lower orc ''co_curricular'' co_curr_items
                        co_curr_issues instr_co_curr st5
                 else st5);
          extra_curr_items = get_items resume_text EXTRA_CURR_KEYS;
          extra_curr_issues = get_section_issues analysis EXTRA_CURR_KEYS;
          st7 = (if extra_curr_items \<noteq> [] \<and> extra_curr_issues \<noteq> PNone
                 then process_simple_list_section lower orc ''extra_curricular'' extra_curr_items
                        extra_curr_issues instr_extra_curr st6
                 else st6);
          skills_issues = get_section_issues analysis SKILLS_KEYS;
          st8 = (if skills_issues \<noteq> PNone
                 then process_skills lower orc resume_text skills_issues st7
                 else st7);
          summary_issues = get_section_issues analysis SUMMARY_KEYS
      in if summary_issues \<noteq> PNone
         then process_summary lower orc resume_text summary_issues st8
         else st8)"

definition generate_resume_improvements ::
  "(string \<Rightarrow> string) \<Rightarrow> rewrite_oracle \<Rightarrow> pydict option \<Rightarrow> pydict option \<Rightarrow> gen_state" where
  "generate_resume_improvements lower orc analysis_opt resume_opt =
     (case (analysis_opt, resume_opt) of
        (Some analysis, Some resume_text) \<Rightarrow>
          if analysis = [] \<or> resume_text = [] then init_state
          else process_sections lower orc analysis resume_text
      | _ \<Rightarrow> init_state)"

section \<open>The specification's reading of the generator\<close>

text \<open>
  The definitions of this section follow the words of the specification, not the source;
  the theorems below compare them with the functions above.
\<close>

subsection \<open>Change filter\<close>

text \<open>
  The change filter accepts a candidate that is present, non-empty, non-empty after
  trimming and lowercasing, and then different from the original, a missing original
  counting as empty.
\<close>

definition filter_accepts :: "(string \<Rightarrow> string) \<Rightarrow> string option \<Rightarrow> string option \<Rightarrow> bool" where
  "filter_accepts lower original improved =
     (case improved of
        None \<Rightarrow> False
      | Some imp \<Rightarrow>
          imp \<noteq> [] \<and> normalize lower imp \<noteq> []
          \<and> normalize lower imp \<noteq> normalize lower (case original of None \<Rightarrow> [] | Some s \<Rightarrow> s))"

text \<open>The invariant of a suggestion, with the non-empty original of every call site.\<close>

definition suggestion_ok :: "(string \<Rightarrow> string) \<Rightarrow> suggestion \<Rightarrow> bool" where
  "suggestion_ok lower s =
     (case original_text s of
        None \<Rightarrow> False
      | Some x \<Rightarrow> x \<noteq> [] \<and> improved_text s \<noteq> []
                  \<and> normalize lower (improved_text s) \<noteq> normalize lower x)"

subsection \<open>The planned oracle requests, in their documented order\<close>

text \<open>
  One request is one oracle call with the section label and the issue label its suggestion
  would carry.
\<close>

record rewrite_request =
  req_section :: string
  req_issue :: string
  req_text :: string
  req_instruction :: string

definition req_call :: "rewrite_request \<Rightarrow> string \<times> string" where
  "req_call q = (req_text q, req_instruction q)"

text \<open>
  A flag table lists, in checking order, the flag names that trigger a row, the issue label
  and the instruction.
\<close>

type_synonym flag_row = "string list \<times> string \<times> string"

definition experience_flags :: "flag_row list" where
  "experience_flags =
     [([''no_metrics'', ''missing_metrics''], ''No measurable impact'', instr_metrics),
      ([''weak_action_verbs''], ''Weak action verbs'', instr_verbs),
      ([''responsibility_over_achievement''], ''Not achievement-oriented'', instr_achievement),
      ([''too_wordy'', ''too_long''], ''Too wordy'', instr_concise_role),
      ([''missing_keywords''], ''Missing keywords'', instr_keywords)]"

definition simple_list_flags :: "string \<Rightarrow> flag_row list" where
  "simple_list_flags generic_instruction =
     [([''too_generic'', ''missing_impact''], ''Too generic'', generic_instruction),
      ([''too_wordy'', ''too_long''], ''Too wordy'', instr_concise_bullet)]"

definition education_flags :: "flag_row list" where
  "education_flags =
     [([''too_generic''], ''Too generic'', instr_edu_generic),
      ([''missing_dates''], ''Missing dates'', instr_edu_dates),
      ([''missing_gpa''], ''GPA/CGPA formatting'', instr_edu_gpa),
      ([''too_wordy'', ''too_long''], ''Too wordy'', instr_edu_concise)]"

definition summary_flags :: "flag_row list" where
  "summary_flags =
     [([''too_generic''], ''Summary too generic'', instr_summary_generic),
      ([''too_long''], ''Summary too long'', instr_summary_long),
      ([''missing_keywords''], ''Missing keywords'', instr_keywords)]"

text \<open>The rows of a table that a flag-mapping triggers, in table order.\<close>

definition flagged :: "pydict \<Rightarrow> flag_row list \<Rightarrow> flag_row list" where
  "flagged d table = filter (\<lambda>(names, label, instruction). list_ex (flag d) names) table"

definition requests_of :: "string \<Rightarrow> string \<Rightarrow> flag_row list \<Rightarrow> rewrite_request list" where
  "requests_of sec original rows =
     map (\<lambda>(names, label, instruction).
            \<lparr>req_section = sec, req_issue = label, req_text = original,
             req_instruction = instruction\<rparr>) rows"

datatype handler_kind = ExperienceLike | SimpleList string | Education

fun flag_table :: "handler_kind \<Rightarrow> flag_row list" where
  "flag_table ExperienceLike = experience_flags"
| "flag_table (SimpleList generic_instruction) = simple_list_flags generic_instruction"
| "flag_table Education = education_flags"

text \<open>
  The unknown-flag fallback of the simple-list sections: a non-empty flag-mapping none of
  whose known flags matched gets one generic-polish request.
\<close>

fun fallback_rows :: "handler_kind \<Rightarrow> pydict \<Rightarrow> flag_row list" where
  "fallback_rows (SimpleList generic_instruction) d =
     (if flagged d (simple_list_flags generic_instruction) = [] \<and> d \<noteq> []
      then [([], ''Improve phrasing'', generic_instruction)] else [])"
| "fallback_rows _ d = []"

text \<open>
  The requests of one index of a per-item issues list: none unless the entry is a
  flag-mapping and the item's flattened text is non-empty, otherwise one per triggered row.
\<close>

definition item_requests ::
  "handler_kind \<Rightarrow> string \<Rightarrow> pyval list \<Rightarrow> nat \<Rightarrow> pyval \<Rightarrow> rewrite_request list" where
  "item_requests kind sec items idx entry =
     (case entry of
        PDict d \<Rightarrow>
          (let original = combine_entry_text (item_at items idx)
           in if original = [] then []
              else requests_of sec original (flagged d (flag_table kind) @ fallback_rows kind d))
      | _ \<Rightarrow> [])"

text \<open>The request of a section-level flag-mapping: the whole section as one block.\<close>

fun block_rows :: "handler_kind \<Rightarrow> pydict \<Rightarrow> flag_row list" where
  "block_rows ExperienceLike d = []"
| "block_rows (SimpleList generic_instruction) d =
     (if list_ex (flag d) [''too_generic'', ''too_long'', ''missing_impact'']
      then [([], ''Section too generic'', generic_instruction)] else [])"
| "block_rows Education d =
     (if list_ex (flag d) [''too_generic'', ''too_long'']
      then [([], ''Section needs standardization'', instr_edu_section)] else [])"

definition block_requests ::
  "handler_kind \<Rightarrow> string \<Rightarrow> pyval list \<Rightarrow> pydict \<Rightarrow> rewrite_request list" where
  "block_requests kind sec items d =
     (let block = py_join bullet_sep (map combine_entry_text items)
      in if block = [] then [] else requests_of sec block (block_rows kind d))"

text \<open>A list-shaped section: item order first, then the order of the flag table.\<close>

definition list_section_requests ::
  "handler_kind \<Rightarrow> string \<Rightarrow> pyval list \<Rightarrow> pyval \<Rightarrow> rewrite_request list" where
  "list_section_requests kind sec items issues =
     (case issues of
        PList iss \<Rightarrow>
          concat (map (\<lambda>(idx, entry). item_requests kind sec items idx entry) (enumerate 0 iss))
      | PDict d \<Rightarrow> block_requests kind sec items d
      | _ \<Rightarrow> [])"

definition skills_requests :: "pydict \<Rightarrow> pyval \<Rightarrow> rewrite_request list" where
  "skills_requests resume_text issues =
     (let original = get_skills_text resume_text
      in if original = [] then []
         else
           (case issues of
              PDict d \<Rightarrow>
                requests_of ''skills'' original
                  (if flag d ''too_generic'' then [([], ''Skills too generic'', instr_skills)]
                   else if flag d ''missing_proficiency''
                   then [([], ''Missing proficiency levels'', instr_skills)]
                   else [])
            | _ \<Rightarrow> []))"

definition summary_requests :: "pydict \<Rightarrow> pyval \<Rightarrow> rewrite_request list" where
  "summary_requests resume_text issues =
     (case dict_get resume_text ''summary'' of
        PStr original \<Rightarrow>
          if original = [] then []
          else
            (case issues of
               PDict d \<Rightarrow> requests_of ''summary'' original (flagged d summary_flags)
             | _ \<Rightarrow> [])
      | _ \<Rightarrow> [])"

text \<open>The nine logical sections in their fixed processing order.\<close>

datatype section_spec =
    ListSection handler_kind string "string list"
  | SkillsSection
  | SummarySection

definition section_order :: "section_spec list" where
  "section_order =
     [ListSection ExperienceLike ''experience'' EXPERIENCE_KEYS,
      ListSection ExperienceLike ''internships'' INTERNSHIP_KEYS,
      ListSection Education ''education'' EDUCATION_KEYS,
      ListSection (SimpleList instr_awards) ''awards_achievements'' AWARDS_KEYS,
      ListSection (SimpleList instr_por) ''positions_of_responsibility'' POR_KEYS,
      ListSection (SimpleList instr_co_curr) ''co_curricular'' CO_CURR_KEYS,
      ListSection (SimpleList instr_extra_curr) ''extra_curricular'' EXTRA_CURR_KEYS,
      SkillsSection,
      SummarySection]"

fun section_requests :: "pydict \<Rightarrow> pydict \<Rightarrow> section_spec \<Rightarrow> rewrite_request list" where
  "section_requests analysis resume_text (ListSection kind sec keys) =
     (let items = get_items resume_text keys;
          issues = get_section_issues analysis keys
      in if items \<noteq> [] \<and> issues \<noteq> PNone then list_section_requests kind sec items issues
         else [])"
| "section_requests analysis resume_text SkillsSection =
     (let issues = get_section_issues analysis SKILLS_KEYS
      in if issues \<noteq> PNone then skills_requests resume_text issues else [])"
| "section_requests analysis resume_text SummarySection =
     (let issues = get_section_issues analysis SUMMARY_KEYS
      in if issues \<noteq> PNone then summary_requests resume_text issues else [])"

definition planned_requests :: "pydict option \<Rightarrow> pydict option \<Rightarrow> rewrite_request list" where
  "planned_requests analysis_opt resume_opt =
     (case (analysis_opt, resume_opt) of
        (Some analysis, Some resume_text) \<Rightarrow>
          if analysis = [] \<or> resume_text = [] then []
          else concat (map (section_requests analysis resume_text) section_order)
      | _ \<Rightarrow> [])"

text \<open>
  Running requests in list order; and what the request at position \<open>i\<close> contributes to
  the output: the oracle is asked with the calls of the requests before it as history, and
  the change filter decides on its answer.
\<close>

definition run_request :: "(string \<Rightarrow> string) \<Rightarrow> rewrite_oracle \<Rightarrow> rewrite_request \<Rightarrow> gen_state \<Rightarrow> gen_state" where
  "run_request lower orc q st =
     call_and_append lower orc (req_section q) (req_issue q) (req_text q) (req_instruction q) st"

definition run_requests :: "(string \<Rightarrow> string) \<Rightarrow> rewrite_oracle \<Rightarrow> rewrite_request list \<Rightarrow> gen_state \<Rightarrow> gen_state" where
  "run_requests lower orc qs st = fold (run_request lower orc) qs st"

definition request_outcome ::
  "(string \<Rightarrow> string) \<Rightarrow> rewrite_oracle \<Rightarrow> (string \<times> string) list \<Rightarrow> rewrite_request list \<Rightarrow> nat \<Rightarrow> suggestion list" where
  "request_outcome lower orc history qs i =
     (let q = qs ! i
      in append_if_changed lower [] (req_section q) (req_issue q) (Some (req_text q))
           (orc (history @ map req_call (take i qs)) (req_text q) (req_instruction q)))"

text \<open>The flag names the experience-like handler reads.\<close>

definition experience_flag_names :: "string list" where
  "experience_flag_names =
     [''no_metrics'', ''missing_metrics'', ''weak_action_verbs'',
      ''responsibility_over_achievement'', ''too_wordy'', ''too_long'', ''missing_keywords'']"

subsection \<open>An oracle and a lowercasing function for the examples\<close>

text \<open>An oracle that gives the same answer to every call.\<close>

definition fixed_oracle :: "string option \<Rightarrow> rewrite_oracle" where
  "fixed_oracle answer history txt instruction = answer"

text \<open>
  The examples below are texts of ASCII characters. On such a text \<^verbatim>\<open>str.lower()\<close> moves the
  letters \<^verbatim>\<open>A\<close> to \<^verbatim>\<open>Z\<close> (65 to 90) to \<^verbatim>\<open>a\<close> to \<^verbatim>\<open>z\<close> and keeps every other character, which is
  what \<open>ascii_lower\<close> does; the examples take it for the parameter \<open>lower\<close>.
\<close>

definition lower_char :: "char \<Rightarrow> char" where
  "lower_char c =
     (let n = (of_char c :: nat) in if 65 \<le> n \<and> n \<le> 90 then char_of (n + 32) else c)"

definition ascii_lower :: "string \<Rightarrow> string" where
  "ascii_lower s = map lower_char s"

subsection \<open>Order of the output\<close>

text \<open>
  The canonical labels of the nine sections in processing order, and the rank of a label
  in that order. A suggestion and a request are compared by section, issue and original
  text.
\<close>

definition section_labels :: "string list" where
  "section_labels =
     [''experience'', ''internships'', ''education'', ''awards_achievements'',
      ''positions_of_responsibility'', ''co_curricular'', ''extra_curricular'',
      ''skills'', ''summary'']"

definition section_rank :: "string \<Rightarrow> nat" where
  "section_rank label = length (takeWhile (\<lambda>l. l \<noteq> label) section_labels)"

definition suggestion_key :: "suggestion \<Rightarrow> string \<times> string \<times> string option" where
  "suggestion_key s = (section_label s, issue s, original_text s)"

definition request_key :: "rewrite_request \<Rightarrow> string \<times> string \<times> string option" where
  "request_key q = (req_section q, req_issue q, Some (req_text q))"

text \<open>The label a section of the fixed order gives to its suggestions.\<close>

fun spec_label :: "section_spec \<Rightarrow> string" where
  "spec_label (ListSection kind sec keys) = sec"
| "spec_label SkillsSection = ''skills''"
| "spec_label SummarySection = ''summary''"

section \<open>Properties of the string functions\<close>

lemma whitespace_codes_eq:
  "whitespace_codes =
     [[CHR 0x09], [CHR 0x0A], [CHR 0x0B], [CHR 0x0C], [CHR 0x0D],
      [CHR 0x1C], [CHR 0x1D], [CHR 0x1E], [CHR 0x1F], [CHR 0x20],
      [CHR 0xC2, CHR 0x85], [CHR 0xC2, CHR 0xA0], [CHR 0xE1, CHR 0x9A, CHR 0x80],
      [CHR 0xE2, CHR 0x80, CHR 0x80], [CHR 0xE2, CHR 0x80, CHR 0x81], [CHR 0xE2, CHR 0x80, CHR 0x82],
      [CHR 0xE2, CHR 0x80, CHR 0x83], [CHR 0xE2, CHR 0x80, CHR 0x84], [CHR 0xE2, CHR 0x80, CHR 0x85],
      [CHR 0xE2, CHR 0x80, CHR 0x86], [CHR 0xE2, CHR 0x80, CHR 0x87], [CHR 0xE2, CHR 0x80, CHR 0x88],
      [CHR 0xE2, CHR 0x80, CHR 0x89], [CHR 0xE2, CHR 0x80, CHR 0x8A],
      [CHR 0xE2, CHR 0x80, CHR 0xA8], [CHR 0xE2, CHR 0x80, CHR 0xA9], [CHR 0xE2, CHR 0x80, CHR 0xAF],
      [CHR 0xE2, CHR 0x81, CHR 0x9F], [CHR 0xE3, CHR 0x80, CHR 0x80]]"
  by (simp add: whitespace_codes_def whitespace_points_def utf8_def char_of_eq_iff take_bit_eq_mod)

lemma find_prefix_unique:
  assumes "prefix_free codes" and "w \<in> set codes" and "prefix w t"
  shows "find (\<lambda>w. prefix w t) codes = Some w"
proof (cases "find (\<lambda>w. prefix w t) codes")
  case None
  then show ?thesis using assms(2,3) by (auto simp: find_None_iff)
next
  case (Some w')
  then have w': "w' \<in> set codes" "prefix w' t"
    by (auto simp: find_Some_iff)
  then have "prefix w' w \<or> prefix w w'"
    using assms(3) prefix_same_cases by blast
  then have "w' = w"
    using assms(1,2) w'(1) by (auto simp: prefix_free_def)
  with Some show ?thesis by simp
qed

lemma strip_leading_code:
  assumes "prefix_free codes" and "w \<in> set codes"
  shows "strip_leading codes (w @ u) = strip_leading codes u"
proof (cases w)
  case Nil
  then show ?thesis using assms by (simp add: prefix_free_def)
next
  case (Cons c cs)
  have "find (\<lambda>w'. prefix w' (c # cs @ u)) codes = Some w"
    using find_prefix_unique [OF assms, of "c # cs @ u"] Cons by simp
  then show ?thesis by (simp add: Cons)
qed

lemma strip_leading_concat:
  assumes "prefix_free codes" and "set ws \<subseteq> set codes"
  shows "strip_leading codes (concat ws @ u) = strip_leading codes u"
  using assms(2) by (induction ws) (simp_all add: strip_leading_code [OF assms(1)])

lemma strip_leading_all:
  "prefix_free codes \<Longrightarrow> strip_leading codes s = [] \<Longrightarrow>
   strip_leading codes (s @ q) = strip_leading codes q"
proof (induction codes s rule: strip_leading.induct)
  case (1 codes)
  show ?case by simp
next
  case (2 codes c cs)
  show ?case
  proof (cases "find (\<lambda>w. prefix w (c # cs)) codes")
    case None
    with "2.prems" show ?thesis by simp
  next
    case (Some w)
    then have w: "w \<in> set codes" "prefix w (c # cs)"
      by (auto simp: find_Some_iff)
    have "prefix w ((c # cs) @ q)"
      using w(2) by (rule prefix_prefix)
    then have f: "find (\<lambda>w. prefix w (c # cs @ q)) codes = Some w"
      using find_prefix_unique [OF "2.prems"(1) w(1)] by simp
    have len: "length w - 1 \<le> length cs"
      using w(2) prefix_length_le by fastforce
    show ?thesis
      using "2.IH" [OF Some "2.prems"(1)] "2.prems"(2) Some f len by simp
  qed
qed

lemma hd_concat: "concat ws \<noteq> [] \<Longrightarrow> \<exists>v\<in>set ws. v \<noteq> [] \<and> hd (concat ws) = hd v"
proof (induction ws)
  case Nil
  then show ?case by simp
next
  case (Cons a ws)
  then show ?case by (cases a) auto
qed

lemma strip_leading_rest:
  "prefix_free codes \<Longrightarrow> self_synchronizing codes \<Longrightarrow> set ws \<subseteq> set codes \<Longrightarrow>
   strip_leading codes s \<noteq> [] \<Longrightarrow>
   strip_leading codes (s @ concat ws) = strip_leading codes s @ concat ws"
proof (induction codes s rule: strip_leading.induct)
  case (1 codes)
  then show ?case by simp
next
  case (2 codes c cs)
  show ?case
  proof (cases "find (\<lambda>w. prefix w (c # cs)) codes")
    case None
    have "find (\<lambda>w. prefix w (c # cs @ concat ws)) codes = None"
    proof (rule ccontr)
      assume "find (\<lambda>w. prefix w (c # cs @ concat ws)) codes \<noteq> None"
      then obtain w where w: "w \<in> set codes" "prefix w ((c # cs) @ concat ws)"
        by (auto simp: find_None_iff)
      have "\<not> prefix w (c # cs)"
        using None w(1) by (auto simp: find_None_iff)
      then obtain p where p0: "w = (c # cs) @ p" "prefix p (concat ws)"
        using w(2) unfolding prefix_append by blast
      have "p \<noteq> []"
        using \<open>\<not> prefix w (c # cs)\<close> p0(1) by auto
      note p = p0(1) this p0(2)
      have "concat ws \<noteq> []"
        using p(2,3) by (cases "concat ws") simp_all
      then obtain v where v: "v \<in> set ws" "v \<noteq> []" "hd (concat ws) = hd v"
        using hd_concat by blast
      have "hd p = hd (concat ws)"
        using p(2,3) by (cases p; cases "concat ws") auto
      then have "hd v \<in> set (tl w)"
        using p(1,2) v(3) by (cases p) auto
      moreover have "v \<in> set codes"
        using v(1) "2.prems"(3) by auto
      ultimately show False
        using "2.prems"(2) w(1) v(2) by (auto simp: self_synchronizing_def)
    qed
    with None show ?thesis by simp
  next
    case (Some w)
    then have w: "w \<in> set codes" "prefix w (c # cs)"
      by (auto simp: find_Some_iff)
    have "prefix w ((c # cs) @ concat ws)"
      using w(2) by (rule prefix_prefix)
    then have f: "find (\<lambda>w. prefix w (c # cs @ concat ws)) codes = Some w"
      using find_prefix_unique [OF "2.prems"(1) w(1)] by simp
    have len: "length w - 1 \<le> length cs"
      using w(2) prefix_length_le by fastforce
    show ?thesis
      using "2.IH" [OF Some "2.prems"(1,2,3)] "2.prems"(4) Some f len by simp
  qed
qed

lemma whitespace_prefix_free: "prefix_free whitespace_codes"
  unfolding prefix_free_def whitespace_codes_eq by simp

lemma whitespace_suffix_free: "prefix_free (map rev whitespace_codes)"
  unfolding prefix_free_def whitespace_codes_eq by simp

lemma whitespace_self_synchronizing: "self_synchronizing whitespace_codes"
  unfolding self_synchronizing_def whitespace_codes_eq by simp

lemma py_strip_padding:
  assumes "set pre \<subseteq> set whitespace_codes" and "set post \<subseteq> set whitespace_codes"
  shows "py_strip (concat pre @ s @ concat post) = py_strip s"
proof -
  let ?L = whitespace_codes
  let ?R = "map rev whitespace_codes"
  have l: "strip_leading ?L (concat pre @ s @ concat post) = strip_leading ?L (s @ concat post)"
    by (rule strip_leading_concat [OF whitespace_prefix_free assms(1)])
  show ?thesis
  proof (cases "strip_leading ?L s = []")
    case True
    have "strip_leading ?L (s @ concat post) = strip_leading ?L (concat post @ [])"
      using strip_leading_all [OF whitespace_prefix_free True] by simp
    also have "\<dots> = []"
      using strip_leading_concat [OF whitespace_prefix_free assms(2), of "[]"] by simp
    finally show ?thesis
      by (simp add: py_strip_def l True)
  next
    case False
    have m: "strip_leading ?L (s @ concat post) = strip_leading ?L s @ concat post"
      by (rule strip_leading_rest
          [OF whitespace_prefix_free whitespace_self_synchronizing assms(2) False])
    have rp: "rev (concat post) = concat (map rev (rev post))"
      by (simp add: rev_concat)
    have sub: "set (map rev (rev post)) \<subseteq> set ?R"
      using assms(2) by auto
    have "strip_leading ?R (rev (strip_leading ?L s @ concat post)) =
          strip_leading ?R (rev (strip_leading ?L s))"
      unfolding rev_append rp
      by (rule strip_leading_concat [OF whitespace_suffix_free sub])
    then show ?thesis
      by (simp add: py_strip_def l m)
  qed
qed

lemma normalize_padding:
  assumes "set pre \<subseteq> set whitespace_codes" and "set post \<subseteq> set whitespace_codes"
  shows "normalize lower (concat pre @ s @ concat post) = normalize lower s"
  by (simp add: normalize_def py_strip_padding [OF assms])

text \<open>Evaluation of the string functions on literals.\<close>

lemmas string_eval =
  normalize_def py_strip_def whitespace_codes_eq ascii_lower_def lower_char_def Let_def
  char_of_eq_iff take_bit_eq_mod

text \<open>Evaluation of the handlers, the entry point and the planned requests on literals.\<close>

lemmas key_defs = EXPERIENCE_KEYS_def INTERNSHIP_KEYS_def EDUCATION_KEYS_def AWARDS_KEYS_def
  POR_KEYS_def CO_CURR_KEYS_def EXTRA_CURR_KEYS_def SKILLS_KEYS_def SUMMARY_KEYS_def

lemmas handler_eval =
  dict_get_def flag_def item_at_def call_and_append_def llm_call_def append_if_changed_def
  fixed_oracle_def init_state_def Let_def

lemmas generate_eval =
  generate_resume_improvements_def process_sections_def key_defs
  process_experience_like_def experience_item_def
  process_simple_list_section_def simple_list_item_def
  process_education_def education_item_def
  process_skills_def get_skills_text_def process_summary_def
  handler_eval

lemmas plan_eval =
  planned_requests_def section_order_def key_defs list_section_requests_def item_requests_def
  block_requests_def requests_of_def flagged_def experience_flags_def simple_list_flags_def
  education_flags_def summary_flags_def skills_requests_def summary_requests_def
  get_skills_text_def dict_get_def flag_def item_at_def Let_def

section \<open>Change filter\<close>

lemma append_if_changed_accepts:
  "append_if_changed lower out sec iss original improved =
     (if filter_accepts lower original improved
      then out @ [\<lparr>section_label = sec, issue = iss, original_text = original,
                   improved_text = the improved\<rparr>]
      else out)"
  by (cases improved) (auto simp: append_if_changed_def filter_accepts_def Let_def)

text \<open>
  Claim C1. The change filter, for every lowercasing function: for an original \<open>x\<close> and a
  candidate \<open>y\<close> the filter leaves the list as it is when \<open>y\<close> is empty, when \<open>y\<close> is empty
  after trimming and lowercasing, and when \<open>y\<close> then equals the trimmed and lowercased \<open>x\<close>;
  otherwise it appends exactly one suggestion that carries \<open>x\<close> and \<open>y\<close> as they were given.
  A missing original counts as the empty string, a missing candidate is rejected like an
  empty one. In particular the filter rejects a candidate whose trimmed and lowercased
  form is that of the original, the original itself, the original padded on either side
  with any whitespace characters, and the empty candidate.
\<close>

theorem append_if_changed_decision:
  "append_if_changed lower out sec iss (Some x) (Some y) =
     (if y = [] \<or> normalize lower y = [] \<or> normalize lower y = normalize lower x then out
      else out @ [\<lparr>section_label = sec, issue = iss, original_text = Some x,
                   improved_text = y\<rparr>])
   \<and> append_if_changed lower out sec iss None (Some y) =
     (if y = [] \<or> normalize lower y = [] \<or> normalize lower y = normalize lower [] then out
      else out @ [\<lparr>section_label = sec, issue = iss, original_text = None,
                   improved_text = y\<rparr>])
   \<and> append_if_changed lower out sec iss original None = out
   \<and> append_if_changed lower out sec iss original (Some []) = out
   \<and> (normalize lower y = normalize lower x
        \<longrightarrow> append_if_changed lower out sec iss (Some x) (Some y) = out)
   \<and> append_if_changed lower out sec iss (Some x) (Some x) = out
   \<and> (set pre \<subseteq> set whitespace_codes \<and> set post \<subseteq> set whitespace_codes
        \<longrightarrow> append_if_changed lower out sec iss (Some x) (Some (concat pre @ x @ concat post)) = out)"
proof -
  have padded: "append_if_changed lower out sec iss (Some x) (Some (concat pre @ x @ concat post)) = out"
    if "set pre \<subseteq> set whitespace_codes" "set post \<subseteq> set whitespace_codes"
    using normalize_padding [OF that, of lower x] by (simp add: append_if_changed_def Let_def)
  show ?thesis
    using padded by (simp add: append_if_changed_def Let_def)
qed

theorem append_if_changed_decision_witness:
  "append_if_changed ascii_lower [] ''experience'' ''Too wordy'' (Some ''Led team'')
      (Some ''Led a team of five'') =
     [\<lparr>section_label = ''experience'', issue = ''Too wordy'', original_text = Some ''Led team'',
       improved_text = ''Led a team of five''\<rparr>]
   \<and> normalize ascii_lower ''  LED Team '' = normalize ascii_lower ''Led team''
   \<and> append_if_changed ascii_lower [] ''experience'' ''Too wordy'' (Some ''Led team'')
        (Some ''  LED Team '') = []
   \<and> normalize ascii_lower [CHR 0xC2, CHR 0xA0] = []
   \<and> append_if_changed ascii_lower [] ''experience'' ''Too wordy'' (Some ''Led team'')
        (Some [CHR 0xC2, CHR 0xA0]) = []
   \<and> [CHR 0xC2, CHR 0xA0] \<in> set whitespace_codes
   \<and> [CHR 0xE3, CHR 0x80, CHR 0x80] \<in> set whitespace_codes
   \<and> '' '' \<in> set whitespace_codes
   \<and> append_if_changed ascii_lower [] ''experience'' ''Too wordy'' (Some ''Led team'')
        (Some (concat [[CHR 0xC2, CHR 0xA0], '' ''] @ ''Led team'' @ concat [[CHR 0xE3, CHR 0x80, CHR 0x80]]))
       = []"
proof -
  have n1: "normalize ascii_lower ''Led a team of five'' = ''led a team of five''"
    and n2: "normalize ascii_lower ''Led team'' = ''led team''"
    and n3: "normalize ascii_lower ''  LED Team '' = ''led team''"
    and n4: "normalize ascii_lower [CHR 0xC2, CHR 0xA0] = []"
    by (simp_all add: string_eval)
  have w: "[CHR 0xC2, CHR 0xA0] \<in> set whitespace_codes"
    "[CHR 0xE3, CHR 0x80, CHR 0x80] \<in> set whitespace_codes" "'' '' \<in> set whitespace_codes"
    by (simp_all add: whitespace_codes_eq)
  have a: "append_if_changed ascii_lower [] ''experience'' ''Too wordy'' (Some ''Led team'')
      (Some ''Led a team of five'') =
     [\<lparr>section_label = ''experience'', issue = ''Too wordy'', original_text = Some ''Led team'',
       improved_text = ''Led a team of five''\<rparr>]"
    using append_if_changed_decision
      [where lower = ascii_lower and out = "[]" and sec = "''experience''" and iss = "''Too wordy''"
         and x = "''Led team''" and y = "''Led a team of five''" and pre = "[]" and post = "[]"]
    by (simp add: n1 n2)
  have b: "append_if_changed ascii_lower [] ''experience'' ''Too wordy'' (Some ''Led team'')
        (Some ''  LED Team '') = []"
    using append_if_changed_decision
      [where lower = ascii_lower and out = "[]" and sec = "''experience''" and iss = "''Too wordy''"
         and x = "''Led team''" and y = "''  LED Team ''"
         and pre = "[]" and post = "[]"]
    by (simp add: n2 n3)
  have c: "append_if_changed ascii_lower [] ''experience'' ''Too wordy'' (Some ''Led team'')
        (Some [CHR 0xC2, CHR 0xA0]) = []"
    using append_if_changed_decision
      [where lower = ascii_lower and out = "[]" and sec = "''experience''" and iss = "''Too wordy''"
         and x = "''Led team''" and y = "[CHR 0xC2, CHR 0xA0]" and pre = "[]" and post = "[]"]
    by (simp add: n4)
  have d: "append_if_changed ascii_lower [] ''experience'' ''Too wordy'' (Some ''Led team'')
        (Some (concat [[CHR 0xC2, CHR 0xA0], '' ''] @ ''Led team'' @ concat [[CHR 0xE3, CHR 0x80, CHR 0x80]]))
       = []"
    using append_if_changed_decision
      [where lower = ascii_lower and out = "[]" and sec = "''experience''" and iss = "''Too wordy''"
         and x = "''Led team''" and y = "[]"
         and pre = "[[CHR 0xC2, CHR 0xA0], '' '']" and post = "[[CHR 0xE3, CHR 0x80, CHR 0x80]]"]
      w by simp
  show ?thesis
    using a b c d n2 n3 n4 w by simp
qed

section \<open>Entry point: the guard\<close>

text \<open>
  Claim C3. If the analysis is \<^verbatim>\<open>None\<close> or empty, or the document is \<^verbatim>\<open>None\<close> or empty,
  \<^verbatim>\<open>generate_resume_improvements\<close> returns the empty list and has made no oracle call. The
  function is total, so this is also its only behaviour on such inputs.
\<close>

theorem generate_empty_input:
  "analysis_opt = None \<or> analysis_opt = Some [] \<or> resume_opt = None \<or> resume_opt = Some []
   \<Longrightarrow> suggestions (generate_resume_improvements lower orc analysis_opt resume_opt) = []
       \<and> calls (generate_resume_improvements lower orc analysis_opt resume_opt) = []"
  by (cases analysis_opt; cases resume_opt)
     (auto simp: generate_resume_improvements_def init_state_def)

theorem generate_empty_input_witness:
  "suggestions (generate_resume_improvements ascii_lower (fixed_oracle (Some ''Rewritten''))
      (Some []) (Some [(''summary'', PStr ''I am a hardworking person.'')])) = []
   \<and> calls (generate_resume_improvements ascii_lower (fixed_oracle (Some ''Rewritten''))
      (Some []) (Some [(''summary'', PStr ''I am a hardworking person.'')])) = []"
  using generate_empty_input
    [of "Some []" "Some [(''summary'', PStr ''I am a hardworking person.'')]"
        ascii_lower "fixed_oracle (Some ''Rewritten'')"]
  by simp

section \<open>Entry flattener\<close>

text \<open>
  Claim C4, as amended. The flattener is a total function from items to strings:
  \<^verbatim>\<open>None\<close> gives the empty string, a string is returned unchanged, a list gives its string
  elements joined. For a mapping whose \<^verbatim>\<open>description\<close> holds a string \<open>x\<close> that is not blank
  after trimming, whatever the other fields are, the result is \<open>x\<close> trimmed: \<open>x\<close> itself when
  trimming leaves it as it is, and the trimmed core of \<open>x\<close> when \<open>x\<close> is that core padded on
  either side with any whitespace characters.
\<close>

theorem combine_entry_text_description:
  "(dict_get entry ''description'' = PStr x \<and> py_strip x \<noteq> []
      \<longrightarrow> combine_entry_text (PDict entry) = py_strip x)
   \<and> (dict_get entry ''description'' = PStr x \<and> x \<noteq> [] \<and> py_strip x = x
      \<longrightarrow> combine_entry_text (PDict entry) = x)
   \<and> (dict_get entry ''description'' = PStr (concat pre @ y @ concat post)
        \<and> set pre \<subseteq> set whitespace_codes \<and> set post \<subseteq> set whitespace_codes \<and> py_strip y \<noteq> []
      \<longrightarrow> combine_entry_text (PDict entry) = py_strip y)
   \<and> combine_entry_text PNone = []
   \<and> combine_entry_text (PStr s) = s
   \<and> combine_entry_text (PList xs) = py_join bullet_sep (str_items xs)"
  by (auto simp: py_strip_padding)

theorem combine_entry_text_description_witness:
  "dict_get [(''title'', PStr ''Engineer''), (''description'', PStr '' Built APIs ''), (''details'', PStr ''unused'')]
      ''description'' = PStr '' Built APIs ''
   \<and> py_strip '' Built APIs '' = ''Built APIs''
   \<and> combine_entry_text (PDict [(''title'', PStr ''Engineer''), (''description'', PStr '' Built APIs ''),
        (''details'', PStr ''unused'')]) = ''Built APIs''
   \<and> [CHR 0xC2, CHR 0xA0] \<in> set whitespace_codes
   \<and> py_strip ''Built APIs'' = ''Built APIs''
   \<and> combine_entry_text
        (PDict [(''description'', PStr (concat [[CHR 0xC2, CHR 0xA0]] @ ''Built APIs'' @ concat [[CHR 0xC2, CHR 0xA0]])),
                (''details'', PStr ''unused'')]) = ''Built APIs''"
proof -
  have a: "dict_get [(''title'', PStr ''Engineer''), (''description'', PStr '' Built APIs ''),
             (''details'', PStr ''unused'')] ''description'' = PStr '' Built APIs ''"
    by (simp add: dict_get_def)
  have b: "py_strip '' Built APIs '' = ''Built APIs''" "py_strip ''Built APIs'' = ''Built APIs''"
    by (simp_all add: string_eval)
  have c: "[CHR 0xC2, CHR 0xA0] \<in> set whitespace_codes"
    by (simp add: whitespace_codes_eq)
  have d: "dict_get [(''description'', PStr (concat [[CHR 0xC2, CHR 0xA0]] @ ''Built APIs'' @ concat [[CHR 0xC2, CHR 0xA0]])),
             (''details'', PStr ''unused'')] ''description''
           = PStr (concat [[CHR 0xC2, CHR 0xA0]] @ ''Built APIs'' @ concat [[CHR 0xC2, CHR 0xA0]])"
    by (simp add: dict_get_def)
  have "combine_entry_text (PDict [(''title'', PStr ''Engineer''), (''description'', PStr '' Built APIs ''),
        (''details'', PStr ''unused'')]) = ''Built APIs''"
    using combine_entry_text_description
      [where entry = "[(''title'', PStr ''Engineer''), (''description'', PStr '' Built APIs ''),
                       (''details'', PStr ''unused'')]"
         and x = "'' Built APIs ''" and pre = "[]" and post = "[]" and y = "[]"]
      a b(1) by simp
  moreover have "combine_entry_text
        (PDict [(''description'', PStr (concat [[CHR 0xC2, CHR 0xA0]] @ ''Built APIs'' @ concat [[CHR 0xC2, CHR 0xA0]])),
                (''details'', PStr ''unused'')]) = ''Built APIs''"
    using combine_entry_text_description
      [where entry = "[(''description'', PStr (concat [[CHR 0xC2, CHR 0xA0]] @ ''Built APIs'' @ concat [[CHR 0xC2, CHR 0xA0]])),
                       (''details'', PStr ''unused'')]"
         and x = "[]" and pre = "[[CHR 0xC2, CHR 0xA0]]" and y = "''Built APIs''"
         and post = "[[CHR 0xC2, CHR 0xA0]]"]
      b(2) c d by simp
  ultimately show ?thesis
    using a b c by simp
qed

text \<open>
  The claim as stated fails for a padded description, which is returned trimmed, and for a
  blank description, be it of spaces or of no-break spaces, which is passed over for the
  next field.
\<close>

theorem combine_entry_text_description_counterexample:
  "dict_get [(''description'', PStr '' Built APIs ''), (''details'', PStr ''unused'')] ''description''
      = PStr '' Built APIs ''
   \<and> combine_entry_text (PDict [(''description'', PStr '' Built APIs ''), (''details'', PStr ''unused'')])
      \<noteq> '' Built APIs ''
   \<and> dict_get [(''description'', PStr ''  ''), (''details'', PStr ''Shipped v2'')] ''description''
      = PStr ''  ''
   \<and> combine_entry_text (PDict [(''description'', PStr ''  ''), (''details'', PStr ''Shipped v2'')])
      = ''Shipped v2''
   \<and> combine_entry_text (PDict [(''description'', PStr [CHR 0xC2, CHR 0xA0]),
        (''details'', PStr ''Shipped v2'')])
      = ''Shipped v2''"
  by (simp add: dict_get_def string_eval)

section \<open>Section resolver\<close>

lemma get_items_skip:
  "\<forall>k\<in>set pre. \<forall>xs. dict_get resume k \<noteq> PList xs \<Longrightarrow>
   get_items resume (pre @ ks) = get_items resume ks"
proof (induction pre)
  case Nil
  show ?case by simp
next
  case (Cons k pre)
  then show ?case by (cases "dict_get resume k") simp_all
qed

text \<open>
  Claim C5. \<^verbatim>\<open>_get_items\<close> returns the value under the first alias whose value is a list:
  aliases before it that are missing or hold something else are passed over. If no alias
  holds a list the result is the empty list. With lists under both \<^verbatim>\<open>experience\<close> and
  \<^verbatim>\<open>work_experience\<close>, the one under \<^verbatim>\<open>experience\<close> is returned.
\<close>

theorem get_items_first_list:
  "(keys = pre @ k # post \<and> (\<forall>k'\<in>set pre. \<forall>xs. dict_get resume k' \<noteq> PList xs)
      \<and> dict_get resume k = PList items
      \<longrightarrow> get_items resume keys = items)
   \<and> ((\<forall>k'\<in>set keys. \<forall>xs. dict_get resume k' \<noteq> PList xs) \<longrightarrow> get_items resume keys = [])
   \<and> (dict_get resume ''experience'' = PList exp_items
        \<and> dict_get resume ''work_experience'' = PList work_items
      \<longrightarrow> get_items resume EXPERIENCE_KEYS = exp_items)"
proof -
  have a: "get_items resume (pre @ k # post) = items"
    if "\<forall>k'\<in>set pre. \<forall>xs. dict_get resume k' \<noteq> PList xs" "dict_get resume k = PList items"
    using that by (simp add: get_items_skip)
  have b: "get_items resume keys = []" if "\<forall>k'\<in>set keys. \<forall>xs. dict_get resume k' \<noteq> PList xs"
    using get_items_skip [OF that, of "[]"] by simp
  show ?thesis
    using a b by (auto simp: EXPERIENCE_KEYS_def)
qed

theorem get_items_first_list_witness:
  "EXPERIENCE_KEYS = [''experience'', ''work_experience''] @ ''work'' # [''professional_experience'']
   \<and> dict_get [(''experience'', PStr ''see below''), (''work'', PList [PStr ''Developer at Acme'']),
        (''professional_experience'', PList [PStr ''Intern at Beta''])] ''work''
      = PList [PStr ''Developer at Acme'']
   \<and> get_items [(''experience'', PStr ''see below''), (''work'', PList [PStr ''Developer at Acme'']),
        (''professional_experience'', PList [PStr ''Intern at Beta''])] EXPERIENCE_KEYS
      = [PStr ''Developer at Acme'']
   \<and> get_items [(''experience'', PStr ''see below'')] EXPERIENCE_KEYS = []
   \<and> get_items [(''work_experience'', PList [PStr ''Intern at Beta'']),
        (''experience'', PList [PStr ''Developer at Acme''])] EXPERIENCE_KEYS
      = [PStr ''Developer at Acme'']"
  using get_items_first_list
    [of EXPERIENCE_KEYS "[''experience'', ''work_experience'']" "''work''" "[''professional_experience'']"
        "[(''experience'', PStr ''see below''), (''work'', PList [PStr ''Developer at Acme'']),
          (''professional_experience'', PList [PStr ''Intern at Beta''])]"
        "[PStr ''Developer at Acme'']"]
  by (simp add: EXPERIENCE_KEYS_def dict_get_def)

section \<open>The handlers make the planned requests\<close>

lemma calls_call_and_append:
  "calls (call_and_append lower orc sec iss original instruction st) = calls st @ [(original, instruction)]"
  by (simp add: call_and_append_def llm_call_def)

lemma suggestions_call_and_append:
  "suggestions (call_and_append lower orc sec iss original instruction st) =
     append_if_changed lower (suggestions st) sec iss (Some original) (orc (calls st) original instruction)"
  by (simp add: call_and_append_def llm_call_def)

lemma run_requests_Nil: "run_requests lower orc [] st = st"
  by (simp add: run_requests_def)

lemma run_requests_Cons: "run_requests lower orc (q # qs) st = run_requests lower orc qs (run_request lower orc q st)"
  by (simp add: run_requests_def)

lemma run_requests_append:
  "run_requests lower orc (ps @ qs) st = run_requests lower orc qs (run_requests lower orc ps st)"
  by (simp add: run_requests_def)

lemma run_requests_of_Nil: "run_requests lower orc (requests_of sec original []) st = st"
  by (simp add: run_requests_def requests_of_def)

lemma run_requests_of_Cons:
  "run_requests lower orc (requests_of sec original ((names, label, instruction) # rows)) st =
     run_requests lower orc (requests_of sec original rows)
       (call_and_append lower orc sec label original instruction st)"
  by (simp add: run_requests_def requests_of_def run_request_def)

lemma experience_item_requests:
  "experience_item lower orc sec items idx entry st =
     run_requests lower orc (item_requests ExperienceLike sec items idx entry) st"
proof (cases entry)
  case (PDict d)
  show ?thesis
    by (simp add: PDict experience_item_def item_requests_def Let_def flagged_def
        experience_flags_def run_requests_Nil run_requests_of_Nil run_requests_of_Cons)
qed (simp_all add: experience_item_def item_requests_def run_requests_Nil)

lemma simple_list_item_requests:
  "simple_list_item lower orc sec items g idx entry st =
     run_requests lower orc (item_requests (SimpleList g) sec items idx entry) st"
proof (cases entry)
  case (PDict d)
  show ?thesis
    by (simp add: PDict simple_list_item_def item_requests_def Let_def flagged_def
        simple_list_flags_def run_requests_Nil run_requests_of_Nil run_requests_of_Cons run_requests_append)
qed (simp_all add: simple_list_item_def item_requests_def run_requests_Nil)

lemma education_item_requests:
  "education_item lower orc items idx entry st =
     run_requests lower orc (item_requests Education ''education'' items idx entry) st"
proof (cases entry)
  case (PDict d)
  show ?thesis
    by (simp add: PDict education_item_def item_requests_def Let_def flagged_def
        education_flags_def run_requests_Nil run_requests_of_Nil run_requests_of_Cons)
qed (simp_all add: education_item_def item_requests_def run_requests_Nil)

lemma fold_enumerate_requests:
  assumes "\<And>idx entry st. step idx entry st = run_requests lower orc (reqs idx entry) st"
  shows "fold (\<lambda>(idx, entry). step idx entry) (enumerate n iss) st =
         run_requests lower orc (concat (map (\<lambda>(idx, entry). reqs idx entry) (enumerate n iss))) st"
  by (induction iss arbitrary: n st) (simp_all add: assms run_requests_Nil run_requests_append)

lemma process_experience_like_requests:
  "process_experience_like lower orc sec items issues st =
     run_requests lower orc (list_section_requests ExperienceLike sec items issues) st"
proof (cases issues)
  case (PList iss)
  show ?thesis
    unfolding PList process_experience_like_def list_section_requests_def pyval.case
    by (rule fold_enumerate_requests) (rule experience_item_requests)
next
  case (PDict d)
  then show ?thesis
    by (simp add: process_experience_like_def list_section_requests_def block_requests_def
        requests_of_def run_requests_Nil Let_def)
qed (simp_all add: process_experience_like_def list_section_requests_def run_requests_Nil)

lemma process_simple_list_section_requests:
  "process_simple_list_section lower orc sec items issues g st =
     run_requests lower orc (list_section_requests (SimpleList g) sec items issues) st"
proof (cases issues)
  case (PList iss)
  show ?thesis
    unfolding PList process_simple_list_section_def list_section_requests_def pyval.case
    by (rule fold_enumerate_requests) (rule simple_list_item_requests)
next
  case (PDict d)
  then show ?thesis
    by (simp add: process_simple_list_section_def list_section_requests_def block_requests_def
        run_requests_Nil run_requests_of_Nil run_requests_of_Cons Let_def)
qed (simp_all add: process_simple_list_section_def list_section_requests_def run_requests_Nil)

lemma process_education_requests:
  "process_education lower orc items issues st =
     run_requests lower orc (list_section_requests Education ''education'' items issues) st"
proof (cases issues)
  case (PList iss)
  show ?thesis
    unfolding PList process_education_def list_section_requests_def pyval.case
    by (rule fold_enumerate_requests) (rule education_item_requests)
next
  case (PDict d)
  then show ?thesis
    by (simp add: process_education_def list_section_requests_def block_requests_def
        run_requests_Nil run_requests_of_Nil run_requests_of_Cons Let_def)
qed (simp_all add: process_education_def list_section_requests_def run_requests_Nil)

lemma process_skills_requests:
  "process_skills lower orc resume_text issues st =
     run_requests lower orc (skills_requests resume_text issues) st"
  by (cases issues)
     (simp_all add: process_skills_def skills_requests_def Let_def
        run_requests_Nil run_requests_of_Nil run_requests_of_Cons)

lemma process_summary_requests:
  "process_summary lower orc resume_text issues st =
     run_requests lower orc (summary_requests resume_text issues) st"
  by (cases issues; cases "dict_get resume_text ''summary''")
     (simp_all add: process_summary_def summary_requests_def Let_def flagged_def summary_flags_def
        run_requests_Nil run_requests_of_Nil run_requests_of_Cons)

lemma run_section_experience:
  "run_requests lower orc (section_requests analysis resume_text (ListSection ExperienceLike sec keys)) st =
     (if get_items resume_text keys \<noteq> [] \<and> get_section_issues analysis keys \<noteq> PNone
      then process_experience_like lower orc sec (get_items resume_text keys)
             (get_section_issues analysis keys) st
      else st)"
  by (simp add: Let_def run_requests_Nil process_experience_like_requests)

lemma run_section_education:
  "run_requests lower orc (section_requests analysis resume_text (ListSection Education ''education'' keys)) st =
     (if get_items resume_text keys \<noteq> [] \<and> get_section_issues analysis keys \<noteq> PNone
      then process_education lower orc (get_items resume_text keys) (get_section_issues analysis keys) st
      else st)"
  by (simp add: Let_def run_requests_Nil process_education_requests)

lemma run_section_simple_list:
  "run_requests lower orc (section_requests analysis resume_text (ListSection (SimpleList g) sec keys)) st =
     (if get_items resume_text keys \<noteq> [] \<and> get_section_issues analysis keys \<noteq> PNone
      then process_simple_list_section lower orc sec (get_items resume_text keys)
             (get_section_issues analysis keys) g st
      else st)"
  by (simp add: Let_def run_requests_Nil process_simple_list_section_requests)

lemma run_section_skills:
  "run_requests lower orc (section_requests analysis resume_text SkillsSection) st =
     (if get_section_issues analysis SKILLS_KEYS \<noteq> PNone
      then process_skills lower orc resume_text (get_section_issues analysis SKILLS_KEYS) st
      else st)"
  by (simp add: Let_def run_requests_Nil process_skills_requests)

lemma run_section_summary:
  "run_requests lower orc (section_requests analysis resume_text SummarySection) st =
     (if get_section_issues analysis SUMMARY_KEYS \<noteq> PNone
      then process_summary lower orc resume_text (get_section_issues analysis SUMMARY_KEYS) st
      else st)"
  by (simp add: Let_def run_requests_Nil process_summary_requests)

lemma process_sections_requests:
  "process_sections lower orc analysis resume_text =
     run_requests lower orc (concat (map (section_requests analysis resume_text) section_order)) init_state"
  unfolding process_sections_def section_order_def Let_def
  by (simp only: list.map concat.simps run_requests_append run_requests_Nil
        run_section_experience run_section_education run_section_simple_list
        run_section_skills run_section_summary)

lemma generate_requests:
  "generate_resume_improvements lower orc analysis_opt resume_opt =
     run_requests lower orc (planned_requests analysis_opt resume_opt) init_state"
  by (cases analysis_opt; cases resume_opt)
     (simp_all add: generate_resume_improvements_def planned_requests_def run_requests_Nil
        process_sections_requests)

section \<open>Running requests\<close>

lemma append_if_changed_append:
  "append_if_changed lower out sec iss original improved =
     out @ append_if_changed lower [] sec iss original improved"
  by (simp add: append_if_changed_accepts)

lemma calls_run_request: "calls (run_request lower orc q st) = calls st @ [req_call q]"
  by (simp add: run_request_def calls_call_and_append req_call_def)

lemma suggestions_run_request:
  "suggestions (run_request lower orc q st) = suggestions st @ request_outcome lower orc (calls st) (q # qs) 0"
  by (simp add: run_request_def suggestions_call_and_append request_outcome_def
      append_if_changed_append [of _ "suggestions st"])

lemma request_outcome_Suc:
  "request_outcome lower orc history (q # qs) (Suc i) = request_outcome lower orc (history @ [req_call q]) qs i"
  by (simp add: request_outcome_def)

lemma run_requests_calls: "calls (run_requests lower orc qs st) = calls st @ map req_call qs"
  by (induction qs arbitrary: st) (simp_all add: run_requests_Nil run_requests_Cons calls_run_request)

lemma run_requests_suggestions:
  "suggestions (run_requests lower orc qs st) =
     suggestions st @ concat (map (request_outcome lower orc (calls st) qs) [0..<length qs])"
proof (induction qs arbitrary: st)
  case Nil
  show ?case by (simp add: run_requests_Nil)
next
  case (Cons q qs)
  have upt: "[0..<length (q # qs)] = 0 # map Suc [0..<length qs]"
    by (simp add: upt_conv_Cons map_Suc_upt del: upt_Suc)
  show ?case
    unfolding run_requests_Cons Cons.IH upt
    by (simp add: suggestions_run_request [of _ _ _ _ qs] calls_run_request request_outcome_Suc
        comp_def)
qed

lemma request_outcome_ok:
  assumes "req_text q \<noteq> []" and "s \<in> set (append_if_changed lower [] sec iss (Some (req_text q)) improved)"
  shows "suggestion_ok lower s"
  using assms by (auto simp: append_if_changed_accepts filter_accepts_def suggestion_ok_def
      split: if_splits option.splits)

lemma run_requests_ok:
  assumes "\<forall>q\<in>set qs. req_text q \<noteq> []" and "\<forall>s\<in>set (suggestions st). suggestion_ok lower s"
  shows "\<forall>s\<in>set (suggestions (run_requests lower orc qs st)). suggestion_ok lower s"
  using assms
proof (induction qs arbitrary: st)
  case Nil
  then show ?case by (simp add: run_requests_Nil)
next
  case (Cons q qs)
  have "\<forall>s\<in>set (suggestions (run_request lower orc q st)). suggestion_ok lower s"
    using Cons.prems request_outcome_ok [of q _ lower]
    by (auto simp: run_request_def suggestions_call_and_append
        append_if_changed_append [of _ "suggestions st"])
  with Cons show ?case by (simp add: run_requests_Cons)
qed

lemma requests_of_text: "q \<in> set (requests_of sec original rows) \<Longrightarrow> req_text q = original"
  by (auto simp: requests_of_def)

lemma item_requests_text: "q \<in> set (item_requests kind sec items idx entry) \<Longrightarrow> req_text q \<noteq> []"
  by (cases entry) (auto simp: item_requests_def Let_def dest: requests_of_text split: if_splits)

lemma list_section_requests_text:
  "q \<in> set (list_section_requests kind sec items issues) \<Longrightarrow> req_text q \<noteq> []"
  by (cases issues)
     (auto simp: list_section_requests_def block_requests_def Let_def
        dest: requests_of_text item_requests_text split: if_splits)

lemma skills_requests_text: "q \<in> set (skills_requests resume_text issues) \<Longrightarrow> req_text q \<noteq> []"
  by (cases issues)
     (auto simp: skills_requests_def Let_def dest: requests_of_text split: if_splits)

lemma summary_requests_text: "q \<in> set (summary_requests resume_text issues) \<Longrightarrow> req_text q \<noteq> []"
  by (cases issues; cases "dict_get resume_text ''summary''")
     (auto simp: summary_requests_def dest: requests_of_text split: if_splits)

lemma section_requests_text:
  "q \<in> set (section_requests analysis resume_text sp) \<Longrightarrow> req_text q \<noteq> []"
  by (cases sp)
     (auto simp: Let_def dest: list_section_requests_text skills_requests_text
        summary_requests_text split: if_splits)

lemma planned_requests_text:
  "q \<in> set (planned_requests analysis_opt resume_opt) \<Longrightarrow> req_text q \<noteq> []"
  by (cases analysis_opt; cases resume_opt)
     (auto simp: planned_requests_def dest: section_requests_text split: if_splits)

text \<open>
  Claim C2. Whatever the document, the analysis, the oracle and the lowercasing function
  are, every suggestion that \<^verbatim>\<open>generate_resume_improvements\<close> returns has a non-empty improved
  text, an original text that is present and non-empty, and an improved text that differs
  from the original after both are trimmed and lowercased; and every oracle call of the
  run was made on a non-empty text.
\<close>

theorem generate_output_invariant:
  "(\<forall>s\<in>set (suggestions (generate_resume_improvements lower orc analysis_opt resume_opt)).
      improved_text s \<noteq> []
      \<and> (\<exists>x. original_text s = Some x \<and> x \<noteq> []
             \<and> normalize lower (improved_text s) \<noteq> normalize lower x))
   \<and> (\<forall>c\<in>set (calls (generate_resume_improvements lower orc analysis_opt resume_opt)). fst c \<noteq> [])"
proof -
  let ?qs = "planned_requests analysis_opt resume_opt"
  have "\<forall>s\<in>set (suggestions (run_requests lower orc ?qs init_state)). suggestion_ok lower s"
    by (rule run_requests_ok) (auto simp: init_state_def dest: planned_requests_text)
  moreover have "\<forall>c\<in>set (calls (run_requests lower orc ?qs init_state)). fst c \<noteq> []"
    by (auto simp: run_requests_calls init_state_def req_call_def dest: planned_requests_text)
  ultimately show ?thesis
    by (auto simp: generate_requests suggestion_ok_def split: option.splits)
qed

theorem generate_output_invariant_witness:
  "\<lparr>section_label = ''summary'', issue = ''Summary too generic'',
      original_text = Some ''I am a hardworking person.'',
      improved_text = ''Backend engineer with five years in payments.''\<rparr>
     \<in> set (suggestions (generate_resume_improvements ascii_lower
          (fixed_oracle (Some ''Backend engineer with five years in payments.''))
          (Some [(''summary'', PDict [(''too_generic'', PBool True)])])
          (Some [(''summary'', PStr ''I am a hardworking person.'')])))
   \<and> ''Backend engineer with five years in payments.'' \<noteq> []
   \<and> ''I am a hardworking person.'' \<noteq> []
   \<and> normalize ascii_lower ''Backend engineer with five years in payments.''
       \<noteq> normalize ascii_lower ''I am a hardworking person.''
   \<and> calls (generate_resume_improvements ascii_lower
          (fixed_oracle (Some ''Backend engineer with five years in payments.''))
          (Some [(''summary'', PDict [(''too_generic'', PBool True)])])
          (Some [(''summary'', PStr ''I am a hardworking person.'')]))
       = [(''I am a hardworking person.'', instr_summary_generic)]"
  using generate_output_invariant
    [of ascii_lower "fixed_oracle (Some ''Backend engineer with five years in payments.'')"
        "Some [(''summary'', PDict [(''too_generic'', PBool True)])]"
        "Some [(''summary'', PStr ''I am a hardworking person.'')]"]
  by (simp add: generate_eval string_eval)

section \<open>Order of the output\<close>

lemma request_outcome_cases:
  "append_if_changed lower [] (req_section q) (req_issue q) (Some (req_text q)) improved = []
   \<or> (\<exists>s. append_if_changed lower [] (req_section q) (req_issue q) (Some (req_text q)) improved = [s]
          \<and> suggestion_key s = request_key q)"
  by (simp add: append_if_changed_accepts suggestion_key_def request_key_def)

lemma run_requests_subseq:
  "\<exists>ys. suggestions (run_requests lower orc qs st) = suggestions st @ ys
        \<and> subseq (map suggestion_key ys) (map request_key qs)"
proof (induction qs arbitrary: st)
  case Nil
  show ?case by (simp add: run_requests_Nil)
next
  case (Cons q qs)
  let ?new = "append_if_changed lower [] (req_section q) (req_issue q) (Some (req_text q))
                (orc (calls st) (req_text q) (req_instruction q))"
  have step: "suggestions (run_request lower orc q st) = suggestions st @ ?new"
    by (simp add: run_request_def suggestions_call_and_append
        append_if_changed_append [of _ "suggestions st"])
  obtain ys where ys: "suggestions (run_requests lower orc qs (run_request lower orc q st)) =
      suggestions (run_request lower orc q st) @ ys"
    "subseq (map suggestion_key ys) (map request_key qs)"
    using Cons.IH by blast
  have "subseq (map suggestion_key (?new @ ys)) (map request_key (q # qs))"
    using request_outcome_cases [of lower q "orc (calls st) (req_text q) (req_instruction q)"] ys(2)
    by auto
  then show ?case
    unfolding run_requests_Cons ys(1) step by auto
qed

lemma requests_of_section: "q \<in> set (requests_of sec original rows) \<Longrightarrow> req_section q = sec"
  by (auto simp: requests_of_def)

lemma item_requests_section:
  "q \<in> set (item_requests kind sec items idx entry) \<Longrightarrow> req_section q = sec"
  by (cases entry) (auto simp: item_requests_def Let_def dest: requests_of_section split: if_splits)

lemma list_section_requests_section:
  "q \<in> set (list_section_requests kind sec items issues) \<Longrightarrow> req_section q = sec"
  by (cases issues)
     (auto simp: list_section_requests_def block_requests_def Let_def
        dest: requests_of_section item_requests_section split: if_splits)

lemma section_requests_section:
  "q \<in> set (section_requests analysis resume_text sp) \<Longrightarrow> req_section q = spec_label sp"
proof (cases sp)
  case (ListSection kind sec keys)
  then show "q \<in> set (section_requests analysis resume_text sp) \<Longrightarrow> req_section q = spec_label sp"
    by (auto simp: Let_def dest: list_section_requests_section split: if_splits)
next
  case SkillsSection
  then show "q \<in> set (section_requests analysis resume_text sp) \<Longrightarrow> req_section q = spec_label sp"
    by (cases "get_section_issues analysis SKILLS_KEYS")
       (auto simp: Let_def skills_requests_def dest: requests_of_section split: if_splits)
next
  case SummarySection
  then show "q \<in> set (section_requests analysis resume_text sp) \<Longrightarrow> req_section q = spec_label sp"
    by (cases "get_section_issues analysis SUMMARY_KEYS"; cases "dict_get resume_text ''summary''")
       (auto simp: Let_def summary_requests_def dest: requests_of_section split: if_splits)
qed

lemma sorted_map_const: "\<forall>x\<in>set xs. f x = c \<Longrightarrow> sorted (map f xs)"
  by (induction xs) auto

lemma sorted_concat_map:
  fixes f :: "'a \<Rightarrow> nat"
  assumes "sorted (map g sps)" and "\<forall>sp\<in>set sps. \<forall>q\<in>set (F sp). f q = g sp"
  shows "sorted (map f (concat (map F sps)))"
  using assms
proof (induction sps)
  case Nil
  show ?case by simp
next
  case (Cons sp sps)
  have "sorted (map f (F sp))"
    using Cons.prems(2) by (intro sorted_map_const [of _ _ "g sp"]) simp
  moreover have "sorted (map f (concat (map F sps)))"
    using Cons by simp
  moreover have "f x \<le> f y" if "x \<in> set (F sp)" "sp' \<in> set sps" "y \<in> set (F sp')" for x y sp'
    using that Cons.prems by auto
  ultimately show ?case
    by (auto simp: sorted_append)
qed

lemma section_order_ranks: "map (section_rank \<circ> spec_label) section_order = [0, 1, 2, 3, 4, 5, 6, 7, 8]"
  by (simp add: section_order_def section_rank_def section_labels_def)

lemma planned_requests_sorted:
  "sorted (map (section_rank \<circ> req_section) (planned_requests analysis_opt resume_opt))"
proof (cases "planned_requests analysis_opt resume_opt = []")
  case True
  then show ?thesis by simp
next
  case False
  then obtain analysis resume_text where
    eq: "planned_requests analysis_opt resume_opt =
           concat (map (section_requests analysis resume_text) section_order)"
    by (cases analysis_opt; cases resume_opt)
       (auto simp: planned_requests_def split: if_splits)
  have "sorted (map (section_rank \<circ> spec_label) section_order)"
    unfolding section_order_ranks by simp
  then show ?thesis
    unfolding eq
    by (rule sorted_concat_map) (auto dest: section_requests_section)
qed

lemma subseq_sorted:
  fixes xs :: "nat list"
  shows "subseq ys xs \<Longrightarrow> sorted xs \<Longrightarrow> sorted ys"
  by (auto simp: subseq_conv_nths sorted_nths)

text \<open>
  Claim C6. The oracle calls of a run are exactly the planned requests, which list the nine
  sections in their fixed order, within a section the indices of the issues list in
  order, and within an item the rows of the flag table in checking order. The returned
  suggestions are, position by position of that plan, what the change filter accepts: so
  they form a subsequence of the plan, and their section labels never go back in the
  section order.
\<close>

theorem generate_output_order:
  "calls (generate_resume_improvements lower orc analysis_opt resume_opt) =
     map req_call (planned_requests analysis_opt resume_opt)
   \<and> suggestions (generate_resume_improvements lower orc analysis_opt resume_opt) =
     concat (map (request_outcome lower orc [] (planned_requests analysis_opt resume_opt))
               [0..<length (planned_requests analysis_opt resume_opt)])
   \<and> subseq (map suggestion_key (suggestions (generate_resume_improvements lower orc analysis_opt resume_opt)))
        (map request_key (planned_requests analysis_opt resume_opt))
   \<and> sorted (map (section_rank \<circ> section_label)
        (suggestions (generate_resume_improvements lower orc analysis_opt resume_opt)))"
proof -
  let ?qs = "planned_requests analysis_opt resume_opt"
  let ?out = "suggestions (generate_resume_improvements lower orc analysis_opt resume_opt)"
  have c: "calls (generate_resume_improvements lower orc analysis_opt resume_opt) = map req_call ?qs"
    by (simp add: generate_requests run_requests_calls init_state_def)
  have s: "?out = concat (map (request_outcome lower orc [] ?qs) [0..<length ?qs])"
    by (simp add: generate_requests run_requests_suggestions init_state_def)
  have sub: "subseq (map suggestion_key ?out) (map request_key ?qs)"
    using run_requests_subseq [of lower orc ?qs init_state]
    by (auto simp: generate_requests init_state_def)
  have "subseq (map (fst \<circ> suggestion_key) ?out) (map (fst \<circ> request_key) ?qs)"
    using subseq_map [OF sub, of fst] by simp
  then have "subseq (map (section_rank \<circ> section_label) ?out) (map (section_rank \<circ> req_section) ?qs)"
    using subseq_map [of "map (fst \<circ> suggestion_key) ?out" "map (fst \<circ> request_key) ?qs" section_rank]
    by (simp add: comp_def suggestion_key_def request_key_def)
  then have "sorted (map (section_rank \<circ> section_label) ?out)"
    using planned_requests_sorted by (rule subseq_sorted)
  with c s sub show ?thesis by simp
qed

theorem generate_output_order_witness:
  "planned_requests
      (Some [(''summary'', PDict [(''too_long'', PBool True)]),
             (''education'', PList [PDict [(''too_generic'', PBool True), (''missing_dates'', PBool True)]]),
             (''experience'', PList [PDict [], PDict [(''too_wordy'', PBool True)]])])
      (Some [(''summary'', PStr ''I am a hardworking person.''),
             (''experience'', PList [PStr ''Built APIs'', PStr ''Led a team'']),
             (''education'', PList [PDict [(''description'', PStr ''BS CS, MIT, 2020'')]])]) =
     [\<lparr>req_section = ''experience'', req_issue = ''Too wordy'', req_text = ''Led a team'',
        req_instruction = instr_concise_role\<rparr>,
      \<lparr>req_section = ''education'', req_issue = ''Too generic'', req_text = ''BS CS, MIT, 2020'',
        req_instruction = instr_edu_generic\<rparr>,
      \<lparr>req_section = ''education'', req_issue = ''Missing dates'', req_text = ''BS CS, MIT, 2020'',
        req_instruction = instr_edu_dates\<rparr>,
      \<lparr>req_section = ''summary'', req_issue = ''Summary too long'',
        req_text = ''I am a hardworking person.'', req_instruction = instr_summary_long\<rparr>]
   \<and> calls (generate_resume_improvements ascii_lower (fixed_oracle (Some ''Rewritten''))
      (Some [(''summary'', PDict [(''too_long'', PBool True)]),
             (''education'', PList [PDict [(''too_generic'', PBool True), (''missing_dates'', PBool True)]]),
             (''experience'', PList [PDict [], PDict [(''too_wordy'', PBool True)]])])
      (Some [(''summary'', PStr ''I am a hardworking person.''),
             (''experience'', PList [PStr ''Built APIs'', PStr ''Led a team'']),
             (''education'', PList [PDict [(''description'', PStr ''BS CS, MIT, 2020'')]])])) =
     [(''Led a team'', instr_concise_role),
      (''BS CS, MIT, 2020'', instr_edu_generic),
      (''BS CS, MIT, 2020'', instr_edu_dates),
      (''I am a hardworking person.'', instr_summary_long)]
   \<and> map suggestion_key (suggestions (generate_resume_improvements ascii_lower (fixed_oracle (Some ''Rewritten''))
      (Some [(''summary'', PDict [(''too_long'', PBool True)]),
             (''education'', PList [PDict [(''too_generic'', PBool True), (''missing_dates'', PBool True)]]),
             (''experience'', PList [PDict [], PDict [(''too_wordy'', PBool True)]])])
      (Some [(''summary'', PStr ''I am a hardworking person.''),
             (''experience'', PList [PStr ''Built APIs'', PStr ''Led a team'']),
             (''education'', PList [PDict [(''description'', PStr ''BS CS, MIT, 2020'')]])]))) =
     [(''experience'', ''Too wordy'', Some ''Led a team''),
      (''education'', ''Too generic'', Some ''BS CS, MIT, 2020''),
      (''education'', ''Missing dates'', Some ''BS CS, MIT, 2020''),
      (''summary'', ''Summary too long'', Some ''I am a hardworking person.'')]"
proof -
  have plan: "planned_requests
      (Some [(''summary'', PDict [(''too_long'', PBool True)]),
             (''education'', PList [PDict [(''too_generic'', PBool True), (''missing_dates'', PBool True)]]),
             (''experience'', PList [PDict [], PDict [(''too_wordy'', PBool True)]])])
      (Some [(''summary'', PStr ''I am a hardworking person.''),
             (''experience'', PList [PStr ''Built APIs'', PStr ''Led a team'']),
             (''education'', PList [PDict [(''description'', PStr ''BS CS, MIT, 2020'')]])]) =
     [\<lparr>req_section = ''experience'', req_issue = ''Too wordy'', req_text = ''Led a team'',
        req_instruction = instr_concise_role\<rparr>,
      \<lparr>req_section = ''education'', req_issue = ''Too generic'', req_text = ''BS CS, MIT, 2020'',
        req_instruction = instr_edu_generic\<rparr>,
      \<lparr>req_section = ''education'', req_issue = ''Missing dates'', req_text = ''BS CS, MIT, 2020'',
        req_instruction = instr_edu_dates\<rparr>,
      \<lparr>req_section = ''summary'', req_issue = ''Summary too long'',
        req_text = ''I am a hardworking person.'', req_instruction = instr_summary_long\<rparr>]"
    by (simp add: plan_eval string_eval)
  show ?thesis
    using generate_output_order
      [of ascii_lower "fixed_oracle (Some ''Rewritten'')"
        "(Some [(''summary'', PDict [(''too_long'', PBool True)]),
             (''education'', PList [PDict [(''too_generic'', PBool True), (''missing_dates'', PBool True)]]),
             (''experience'', PList [PDict [], PDict [(''too_wordy'', PBool True)]])])"
        "(Some [(''summary'', PStr ''I am a hardworking person.''),
             (''experience'', PList [PStr ''Built APIs'', PStr ''Led a team'']),
             (''education'', PList [PDict [(''description'', PStr ''BS CS, MIT, 2020'')]])])"]
    unfolding plan
    by (simp add: request_outcome_def req_call_def append_if_changed_def fixed_oracle_def
        suggestion_key_def string_eval)
qed

section \<open>Flags of one item\<close>

lemma suggestions_call_and_append_accepts:
  "suggestions (call_and_append lower orc sec iss original instruction st) =
     (if filter_accepts lower (Some original) (orc (calls st) original instruction)
      then suggestions st @ [\<lparr>section_label = sec, issue = iss, original_text = Some original,
             improved_text = the (orc (calls st) original instruction)\<rparr>]
      else suggestions st)"
  by (simp add: suggestions_call_and_append append_if_changed_accepts)

text \<open>
  Claim C7, as amended. For one experience-like item with a non-empty flattened text whose
  flag-mapping has \<^verbatim>\<open>no_metrics\<close> and \<^verbatim>\<open>weak_action_verbs\<close> truthy and none of
  \<^verbatim>\<open>responsibility_over_achievement\<close>, \<^verbatim>\<open>too_wordy\<close>, \<^verbatim>\<open>too_long\<close>, \<^verbatim>\<open>missing_keywords\<close>
  truthy, exactly two oracle calls are made, both on the same original text, one with the
  metrics instruction and then one with the action-verb instruction, which differ. Each
  answer goes through the change filter on its own; when the filter accepts both, exactly
  two suggestions are added, labelled "No measurable impact" and "Weak action verbs", with
  the same original text.
\<close>

theorem experience_item_two_flags:
  assumes "flag d ''no_metrics''" and "flag d ''weak_action_verbs''"
    and "\<not> flag d ''responsibility_over_achievement''" and "\<not> flag d ''too_wordy''"
    and "\<not> flag d ''too_long''" and "\<not> flag d ''missing_keywords''"
    and "combine_entry_text (item_at items idx) = original" and "original \<noteq> []"
    and "orc (calls st) original instr_metrics = r1"
    and "orc (calls st @ [(original, instr_metrics)]) original instr_verbs = r2"
  shows "calls (experience_item lower orc sec items idx (PDict d) st) =
           calls st @ [(original, instr_metrics), (original, instr_verbs)]
         \<and> instr_metrics \<noteq> instr_verbs
         \<and> suggestions (experience_item lower orc sec items idx (PDict d) st) =
             append_if_changed lower
               (append_if_changed lower (suggestions st) sec ''No measurable impact'' (Some original) r1)
               sec ''Weak action verbs'' (Some original) r2
         \<and> (filter_accepts lower (Some original) r1 \<and> filter_accepts lower (Some original) r2 \<longrightarrow>
              suggestions (experience_item lower orc sec items idx (PDict d) st) =
                suggestions st @
                  [\<lparr>section_label = sec, issue = ''No measurable impact'',
                     original_text = Some original, improved_text = the r1\<rparr>,
                   \<lparr>section_label = sec, issue = ''Weak action verbs'',
                     original_text = Some original, improved_text = the r2\<rparr>])"
  using assms
  by (auto simp: experience_item_def Let_def calls_call_and_append
      suggestions_call_and_append_accepts append_if_changed_accepts
      instr_metrics_def instr_verbs_def)

theorem experience_item_two_flags_witness:
  "flag [(''no_metrics'', PBool True), (''weak_action_verbs'', PBool True)] ''no_metrics''
   \<and> flag [(''no_metrics'', PBool True), (''weak_action_verbs'', PBool True)] ''weak_action_verbs''
   \<and> combine_entry_text (item_at [PDict [(''description'', PStr ''Worked on the billing system'')]] 0)
       = ''Worked on the billing system''
   \<and> filter_accepts ascii_lower (Some ''Worked on the billing system'')
        (Some ''Rebuilt the billing system, cutting invoice errors'')
   \<and> experience_item ascii_lower (fixed_oracle (Some ''Rebuilt the billing system, cutting invoice errors''))
        ''experience'' [PDict [(''description'', PStr ''Worked on the billing system'')]] 0
        (PDict [(''no_metrics'', PBool True), (''weak_action_verbs'', PBool True)]) init_state =
      \<lparr>calls = [(''Worked on the billing system'', instr_metrics),
                (''Worked on the billing system'', instr_verbs)],
       suggestions =
         [\<lparr>section_label = ''experience'', issue = ''No measurable impact'',
            original_text = Some ''Worked on the billing system'',
            improved_text = ''Rebuilt the billing system, cutting invoice errors''\<rparr>,
          \<lparr>section_label = ''experience'', issue = ''Weak action verbs'',
            original_text = Some ''Worked on the billing system'',
            improved_text = ''Rebuilt the billing system, cutting invoice errors''\<rparr>]\<rparr>"
  using experience_item_two_flags
    [of "[(''no_metrics'', PBool True), (''weak_action_verbs'', PBool True)]"
        "[PDict [(''description'', PStr ''Worked on the billing system'')]]" 0
        "''Worked on the billing system''"
        "fixed_oracle (Some ''Rebuilt the billing system, cutting invoice errors'')" init_state
        "Some ''Rebuilt the billing system, cutting invoice errors''"
        "Some ''Rebuilt the billing system, cutting invoice errors''" ascii_lower "''experience''"]
  by (simp add: experience_item_def handler_eval filter_accepts_def string_eval)

text \<open>
  The claim as stated fails when a further recognised flag is truthy: with \<^verbatim>\<open>too_wordy\<close> set
  as well, the item gets three oracle calls and three suggestions.
\<close>

theorem experience_item_two_flags_counterexample:
  "flag [(''no_metrics'', PBool True), (''weak_action_verbs'', PBool True), (''too_wordy'', PBool True)]
      ''no_metrics''
   \<and> flag [(''no_metrics'', PBool True), (''weak_action_verbs'', PBool True), (''too_wordy'', PBool True)]
      ''weak_action_verbs''
   \<and> combine_entry_text (item_at [PStr ''Worked on the billing system''] 0) \<noteq> []
   \<and> length (calls (experience_item ascii_lower
        (fixed_oracle (Some ''Rebuilt the billing system, cutting invoice errors''))
        ''experience'' [PStr ''Worked on the billing system''] 0
        (PDict [(''no_metrics'', PBool True), (''weak_action_verbs'', PBool True),
                (''too_wordy'', PBool True)]) init_state)) = 3
   \<and> map issue (suggestions (experience_item ascii_lower
        (fixed_oracle (Some ''Rebuilt the billing system, cutting invoice errors''))
        ''experience'' [PStr ''Worked on the billing system''] 0
        (PDict [(''no_metrics'', PBool True), (''weak_action_verbs'', PBool True),
                (''too_wordy'', PBool True)]) init_state))
      = [''No measurable impact'', ''Weak action verbs'', ''Too wordy'']"
  by (simp add: experience_item_def handler_eval string_eval)

lemma flag_absent: "k \<notin> fst ` set d \<Longrightarrow> \<not> flag d k"
  by (simp add: flag_def dict_get_def map_of_eq_None_iff [THEN iffD2])

text \<open>
  Claim C8, as amended. In a simple-list section with a per-item issues list, an item with
  a non-empty flattened text whose flag-mapping is non-empty and has none of
  \<^verbatim>\<open>too_generic\<close>, \<^verbatim>\<open>missing_impact\<close>, \<^verbatim>\<open>too_wordy\<close>, \<^verbatim>\<open>too_long\<close> truthy gets exactly one
  oracle call, with the generic instruction, and what the change filter accepts of it is
  labelled "Improve phrasing". In an experience-like section an item none of whose
  recognised flags is truthy, in particular one whose flag-mapping has only unrecognised
  keys, gets no oracle call and no suggestion.
\<close>

theorem unknown_flags_asymmetry:
  "(d \<noteq> [] \<and> \<not> flag d ''too_generic'' \<and> \<not> flag d ''missing_impact''
      \<and> \<not> flag d ''too_wordy'' \<and> \<not> flag d ''too_long''
      \<and> combine_entry_text (item_at items idx) = original \<and> original \<noteq> []
    \<longrightarrow> calls (simple_list_item lower orc sec items generic_instruction idx (PDict d) st) =
          calls st @ [(original, generic_instruction)]
        \<and> suggestions (simple_list_item lower orc sec items generic_instruction idx (PDict d) st) =
          append_if_changed lower (suggestions st) sec ''Improve phrasing'' (Some original)
            (orc (calls st) original generic_instruction))
   \<and> ((\<forall>k\<in>set experience_flag_names. \<not> flag d k)
    \<longrightarrow> experience_item lower orc sec items idx (PDict d) st = st)
   \<and> (fst ` set d \<inter> set experience_flag_names = {}
    \<longrightarrow> experience_item lower orc sec items idx (PDict d) st = st)"
proof -
  have a: "experience_item lower orc sec items idx (PDict d) st = st"
    if "\<forall>k\<in>set experience_flag_names. \<not> flag d k"
    using that by (simp add: experience_item_def experience_flag_names_def Let_def)
  have b: "\<forall>k\<in>set experience_flag_names. \<not> flag d k"
    if "fst ` set d \<inter> set experience_flag_names = {}"
    using that flag_absent [of _ d] by blast
  show ?thesis
    using a b
    by (auto simp: simple_list_item_def Let_def calls_call_and_append suggestions_call_and_append)
qed

theorem unknown_flags_asymmetry_witness:
  "\<not> flag [(''needs_review'', PBool True)] ''too_generic''
   \<and> combine_entry_text (item_at [PStr ''Won the regional hackathon''] 0) = ''Won the regional hackathon''
   \<and> simple_list_item ascii_lower (fixed_oracle (Some ''Won first place at the regional hackathon''))
        ''awards_achievements'' [PStr ''Won the regional hackathon''] instr_awards 0
        (PDict [(''needs_review'', PBool True)]) init_state =
      \<lparr>calls = [(''Won the regional hackathon'', instr_awards)],
       suggestions =
         [\<lparr>section_label = ''awards_achievements'', issue = ''Improve phrasing'',
            original_text = Some ''Won the regional hackathon'',
            improved_text = ''Won first place at the regional hackathon''\<rparr>]\<rparr>
   \<and> experience_item ascii_lower (fixed_oracle (Some ''Won first place at the regional hackathon''))
        ''experience'' [PStr ''Won the regional hackathon''] 0
        (PDict [(''needs_review'', PBool True)]) init_state = init_state"
  using unknown_flags_asymmetry
    [of "[(''needs_review'', PBool True)]" "[PStr ''Won the regional hackathon'']" 0
        "''Won the regional hackathon''"
        ascii_lower "fixed_oracle (Some ''Won first place at the regional hackathon'')"
        "''awards_achievements''" instr_awards init_state]
  by (simp add: simple_list_item_def experience_item_def handler_eval string_eval)

text \<open>
  The claim as stated fails for an item without usable text: its flag-mapping is non-empty
  and has no recognised flag, and yet no oracle call is made.
\<close>

theorem unknown_flags_asymmetry_counterexample:
  "[(''needs_review'', PBool True)] \<noteq> []
   \<and> \<not> flag [(''needs_review'', PBool True)] ''too_generic''
   \<and> \<not> flag [(''needs_review'', PBool True)] ''missing_impact''
   \<and> \<not> flag [(''needs_review'', PBool True)] ''too_wordy''
   \<and> \<not> flag [(''needs_review'', PBool True)] ''too_long''
   \<and> calls (simple_list_item ascii_lower (fixed_oracle (Some ''Won first place at the regional hackathon''))
        ''awards_achievements'' [PDict [(''year'', PInt 2020)]] instr_awards 0
        (PDict [(''needs_review'', PBool True)]) init_state) = []"
  by (simp add: simple_list_item_def handler_eval bullet_sep_def string_eval)

section \<open>Skills handler\<close>

text \<open>
  Claim C9. When the skills issues are a mapping with \<^verbatim>\<open>too_generic\<close> or
  \<^verbatim>\<open>missing_proficiency\<close> truthy and the flattened skills string is non-empty, exactly one
  oracle call is made, on that string; the suggestion the change filter accepts is labelled
  "Skills too generic" when \<^verbatim>\<open>too_generic\<close> is truthy and "Missing proficiency levels"
  otherwise. When the flattened skills string is empty the handler changes nothing: no
  oracle call, no suggestion.
\<close>

theorem process_skills_rule:
  "((flag d ''too_generic'' \<or> flag d ''missing_proficiency'')
      \<and> get_skills_text resume_text = original \<and> original \<noteq> []
    \<longrightarrow> calls (process_skills lower orc resume_text (PDict d) st) = calls st @ [(original, instr_skills)]
        \<and> suggestions (process_skills lower orc resume_text (PDict d) st) =
          append_if_changed lower (suggestions st) ''skills''
            (if flag d ''too_generic'' then ''Skills too generic'' else ''Missing proficiency levels'')
            (Some original) (orc (calls st) original instr_skills)
        \<and> (filter_accepts lower (Some original) (orc (calls st) original instr_skills) \<longrightarrow>
            suggestions (process_skills lower orc resume_text (PDict d) st) =
              suggestions st @
                [\<lparr>section_label = ''skills'',
                   issue = (if flag d ''too_generic'' then ''Skills too generic''
                            else ''Missing proficiency levels''),
                   original_text = Some original,
                   improved_text = the (orc (calls st) original instr_skills)\<rparr>]))
   \<and> (get_skills_text resume_text = [] \<longrightarrow> process_skills lower orc resume_text issues st = st)"
  by (auto simp: process_skills_def Let_def calls_call_and_append suggestions_call_and_append
      append_if_changed_accepts)

theorem process_skills_rule_witness:
  "flag [(''too_generic'', PBool True), (''missing_proficiency'', PBool True)] ''too_generic''
   \<and> get_skills_text [(''skills'', PDict [(''tools'', PList [PStr ''Git'']),
        (''technical'', PList [PStr ''Python'', PInt 3, PStr ''SQL''])])] = ''Python, SQL, Git''
   \<and> process_skills ascii_lower (fixed_oracle (Some ''Languages: Python, SQL. Tools: Git''))
        [(''skills'', PDict [(''tools'', PList [PStr ''Git'']),
           (''technical'', PList [PStr ''Python'', PInt 3, PStr ''SQL''])])]
        (PDict [(''too_generic'', PBool True), (''missing_proficiency'', PBool True)]) init_state =
      \<lparr>calls = [(''Python, SQL, Git'', instr_skills)],
       suggestions =
         [\<lparr>section_label = ''skills'', issue = ''Skills too generic'',
            original_text = Some ''Python, SQL, Git'',
            improved_text = ''Languages: Python, SQL. Tools: Git''\<rparr>]\<rparr>
   \<and> get_skills_text [(''skills'', PStr ''Python'')] = []
   \<and> process_skills ascii_lower (fixed_oracle (Some ''Languages: Python''))
        [(''skills'', PStr ''Python'')] (PDict [(''too_generic'', PBool True)]) init_state
      = init_state"
  using process_skills_rule
    [of "[(''too_generic'', PBool True), (''missing_proficiency'', PBool True)]"
        "[(''skills'', PDict [(''tools'', PList [PStr ''Git'']),
           (''technical'', PList [PStr ''Python'', PInt 3, PStr ''SQL''])])]"
        "''Python, SQL, Git''" ascii_lower "fixed_oracle (Some ''Languages: Python, SQL. Tools: Git'')" init_state]
  by (simp add: process_skills_def get_skills_text_def handler_eval string_eval)

section \<open>Indices without an item\<close>

lemma item_at_out_of_range: "length items \<le> idx \<Longrightarrow> combine_entry_text (item_at items idx) = []"
  by (simp add: item_at_def)

lemma experience_item_out_of_range:
  "length items \<le> idx \<Longrightarrow> experience_item lower orc sec items idx entry st = st"
  by (cases entry) (simp_all add: experience_item_def item_at_out_of_range)

lemma simple_list_item_out_of_range:
  "length items \<le> idx \<Longrightarrow> simple_list_item lower orc sec items g idx entry st = st"
  by (cases entry) (simp_all add: simple_list_item_def item_at_out_of_range)

lemma education_item_out_of_range:
  "length items \<le> idx \<Longrightarrow> education_item lower orc items idx entry st = st"
  by (cases entry) (simp_all add: education_item_def item_at_out_of_range)

lemma fold_enumerate_skip:
  assumes "\<And>idx entry st. n \<le> idx \<Longrightarrow> step idx entry st = st"
  shows "n \<le> m \<Longrightarrow> fold (\<lambda>(idx, entry). step idx entry) (enumerate m iss) st = st"
  by (induction iss arbitrary: m st) (simp_all add: assms)

lemma fold_enumerate_take:
  assumes "\<And>idx entry st. n \<le> idx \<Longrightarrow> step idx entry st = st"
  shows "fold (\<lambda>(idx, entry). step idx entry) (enumerate 0 iss) st =
         fold (\<lambda>(idx, entry). step idx entry) (enumerate 0 (take n iss)) st"
proof -
  have "enumerate 0 iss = enumerate 0 (take n iss) @ enumerate (length (take n iss)) (drop n iss)"
    using enumerate_append_eq [of 0 "take n iss" "drop n iss"] by simp
  moreover have "fold (\<lambda>(idx, entry). step idx entry) (enumerate (length (take n iss)) (drop n iss)) st' = st'"
    for st'
  proof (cases "n \<le> length iss")
    case True
    then show ?thesis by (intro fold_enumerate_skip [of n]) (simp_all add: assms)
  next
    case False
    then show ?thesis by simp
  qed
  ultimately show ?thesis by simp
qed

text \<open>
  Claim C10. An index of a per-item issues list that has no item (it is at least the
  length of the item list) gives the empty flattened text, and the experience-like, the
  simple-list and the education loop leave the state as it is there: no oracle call, no
  suggestion. The model has no failure, so nothing is raised. The indices below the length
  of the item list are processed as if the issues list ended there.
\<close>

theorem out_of_range_index_skipped:
  "(length items \<le> idx \<longrightarrow>
      combine_entry_text (item_at items idx) = []
      \<and> experience_item lower orc sec items idx entry st = st
      \<and> simple_list_item lower orc sec items generic_instruction idx entry st = st
      \<and> education_item lower orc items idx entry st = st)
   \<and> process_experience_like lower orc sec items (PList iss) st =
       process_experience_like lower orc sec items (PList (take (length items) iss)) st
   \<and> process_simple_list_section lower orc sec items (PList iss) generic_instruction st =
       process_simple_list_section lower orc sec items (PList (take (length items) iss)) generic_instruction st
   \<and> process_education lower orc items (PList iss) st =
       process_education lower orc items (PList (take (length items) iss)) st"
proof -
  have a: "process_experience_like lower orc sec items (PList iss) st =
             process_experience_like lower orc sec items (PList (take (length items) iss)) st"
    unfolding process_experience_like_def pyval.case
    by (rule fold_enumerate_take) (rule experience_item_out_of_range)
  have b: "process_simple_list_section lower orc sec items (PList iss) generic_instruction st =
       process_simple_list_section lower orc sec items (PList (take (length items) iss)) generic_instruction st"
    unfolding process_simple_list_section_def pyval.case
    by (rule fold_enumerate_take) (rule simple_list_item_out_of_range)
  have c: "process_education lower orc items (PList iss) st =
       process_education lower orc items (PList (take (length items) iss)) st"
    unfolding process_education_def pyval.case
    by (rule fold_enumerate_take) (rule education_item_out_of_range)
  show ?thesis
    using a b c
    by (simp add: item_at_out_of_range experience_item_out_of_range
        simple_list_item_out_of_range education_item_out_of_range)
qed

theorem out_of_range_index_skipped_witness:
  "length [PStr ''Won the regional hackathon''] \<le> 1
   \<and> simple_list_item ascii_lower (fixed_oracle (Some ''Won first place at the regional hackathon''))
        ''awards_achievements'' [PStr ''Won the regional hackathon''] instr_awards 1
        (PDict [(''too_generic'', PBool True)]) init_state = init_state
   \<and> process_simple_list_section ascii_lower (fixed_oracle (Some ''Won first place at the regional hackathon''))
        ''awards_achievements'' [PStr ''Won the regional hackathon'']
        (PList [PDict [(''too_wordy'', PBool True)], PDict [(''too_generic'', PBool True)]])
        instr_awards init_state =
      \<lparr>calls = [(''Won the regional hackathon'', instr_concise_bullet)],
       suggestions =
         [\<lparr>section_label = ''awards_achievements'', issue = ''Too wordy'',
            original_text = Some ''Won the regional hackathon'',
            improved_text = ''Won first place at the regional hackathon''\<rparr>]\<rparr>"
  using out_of_range_index_skipped
    [of "[PStr ''Won the regional hackathon'']" 1
        ascii_lower "fixed_oracle (Some ''Won first place at the regional hackathon'')" "''awards_achievements''"
        "PDict [(''too_generic'', PBool True)]" init_state instr_awards
        "[PDict [(''too_wordy'', PBool True)], PDict [(''too_generic'', PBool True)]]"]
  by (simp add: process_simple_list_section_def simple_list_item_def handler_eval string_eval)

end
